theory Spec2Isabelle
  imports Complex_Main
begin

section \<open>JavaScript values used by the Help Scout client\<close>

text \<open>
  A JavaScript number is either NaN or a finite value. Finite values are idealised as
  reals: rounding of doubles and the infinities are not modelled.
\<close>

datatype number = NaN | Fin real

fun jsTimes :: "number \<Rightarrow> number \<Rightarrow> number" where
  "jsTimes (Fin a) (Fin b) = Fin (a * b)"
| "jsTimes _ _ = NaN"

text \<open>\<^verbatim>\<open>Math.min\<close>: NaN as soon as one argument is NaN.\<close>

fun jsMin :: "number \<Rightarrow> number \<Rightarrow> number" where
  "jsMin (Fin a) (Fin b) = Fin (min a b)"
| "jsMin _ _ = NaN"

datatype jsvalue =
    JUndefined
  | JNull
  | JBool bool
  | JNum number
  | JStr string
  | JArr "jsvalue list"
  | JObj "(string \<times> jsvalue) list"

text \<open>The truthiness test of \<^verbatim>\<open>if (v)\<close> and \<^verbatim>\<open>a || b\<close>.\<close>

fun truthy :: "jsvalue \<Rightarrow> bool" where
  "truthy JUndefined = False"
| "truthy JNull = False"
| "truthy (JBool b) = b"
| "truthy (JNum NaN) = False"
| "truthy (JNum (Fin x)) = (x \<noteq> 0)"
| "truthy (JStr s) = (s \<noteq> [])"
| "truthy (JArr xs) = True"
| "truthy (JObj kvs) = True"

text \<open>An optional string (\<^verbatim>\<open>string | undefined | null\<close>) is truthy when present and non-empty.\<close>

fun truthyStr :: "string option \<Rightarrow> bool" where
  "truthyStr None = False"
| "truthyStr (Some s) = (s \<noteq> [])"

subsection \<open>String helpers\<close>

definition startsWith :: "string \<Rightarrow> string \<Rightarrow> bool" where
  "startsWith s pat = (take (length pat) s = pat)"

text \<open>\<^verbatim>\<open>s.includes(pat)\<close>: \<open>pat\<close> occurs as a contiguous substring of \<open>s\<close>.\<close>

fun includesStr :: "string \<Rightarrow> string \<Rightarrow> bool" where
  "includesStr [] pat = (pat = [])"
| "includesStr (c # cs) pat = (if startsWith (c # cs) pat then True else includesStr cs pat)"

text \<open>
  \<^verbatim>\<open>s.replace(pat, rep)\<close> with a string pattern replaces the first occurrence only
  (\<open>rep\<close> without \<^verbatim>\<open>$\<close> patterns).
\<close>

fun replaceFirst :: "string \<Rightarrow> string \<Rightarrow> string \<Rightarrow> string" where
  "replaceFirst [] pat rep = (if pat = [] then rep else [])"
| "replaceFirst (c # cs) pat rep =
     (if startsWith (c # cs) pat then rep @ drop (length pat) (c # cs)
      else c # replaceFirst cs pat rep)"

text \<open>
  \<^verbatim>\<open>parseInt(s, 10)\<close>: leading white space is skipped, one sign is read, then the longest
  run of decimal digits; NaN when there is no digit.
\<close>

definition isWhitespace :: "char \<Rightarrow> bool" where
  "isWhitespace c = (of_char c \<in> {9, 10, 11, 12, 13, 32 :: nat})"

definition isDigit :: "char \<Rightarrow> bool" where
  "isDigit c = (48 \<le> (of_char c :: nat) \<and> (of_char c :: nat) \<le> 57)"

definition digitsValue :: "string \<Rightarrow> int" where
  "digitsValue ds = foldl (\<lambda>acc c. 10 * acc + (int (of_char c) - 48)) 0 ds"

fun stripSign :: "string \<Rightarrow> bool \<times> string" where
  "stripSign [] = (False, [])"
| "stripSign (c # cs) =
     (if c = CHR ''-'' then (True, cs)
      else if c = CHR ''+'' then (False, cs)
      else (False, c # cs))"

definition parseInt :: "string \<Rightarrow> number" where
  "parseInt s =
     (case stripSign (dropWhile isWhitespace s) of
        (neg, u) \<Rightarrow>
          (let ds = takeWhile isDigit u
           in if ds = [] then NaN
              else Fin (of_int ((if neg then - 1 else 1) * digitsValue ds))))"

section \<open>HTTP data\<close>

datatype verb = GET | POST | PUT | PATCH

type_synonym params = "(string \<times> jsvalue) list option"

record request =
  req_verb :: verb
  req_url :: string
  req_params :: params
  req_body :: jsvalue
  req_authorization :: "string option"

record http_response =
  status :: int
  headers :: "(string \<times> string) list"
  data :: jsvalue

text \<open>
  What the transport delivers for one network call: no response at all (with the error
  code of the transport library, \<^verbatim>\<open>ECONNABORTED\<close> for a client-side timeout), or a response.
\<close>

datatype transport = NoResponse "string option" | Response http_response

text \<open>
  The error object of the HTTP library (\<^verbatim>\<open>AxiosError\<close>), also used for a plain \<^verbatim>\<open>Error\<close>,
  which has neither code nor response nor request configuration.
\<close>

record axios_error =
  err_code :: "string option"
  err_message :: string
  err_response :: "http_response option"
  err_url :: "string option"
  err_method :: "string option"

datatype error_kind = UNAUTHORIZED | NOT_FOUND | RATE_LIMIT | INVALID_INPUT | UPSTREAM_ERROR

fun kindString :: "error_kind \<Rightarrow> string" where
  "kindString UNAUTHORIZED = ''UNAUTHORIZED''"
| "kindString NOT_FOUND = ''NOT_FOUND''"
| "kindString RATE_LIMIT = ''RATE_LIMIT''"
| "kindString INVALID_INPUT = ''INVALID_INPUT''"
| "kindString UPSTREAM_ERROR = ''UPSTREAM_ERROR''"

text \<open>
  \<^verbatim>\<open>ApiError\<close>, the normalized error. Of its \<^verbatim>\<open>details\<close> the url and the method are kept;
  the message text, the request id and the suggestion are not modelled.
\<close>

record api_error =
  kind :: error_kind
  retryAfter :: "number option"
  details_url :: "string option"
  details_method :: "string option"

text \<open>
  What a rejected promise carries at run time. The source casts it to \<^verbatim>\<open>AxiosError\<close>
  without a check, so both shapes reach the same property reads.
\<close>

datatype thrown = Raw axios_error | Normalized api_error

fun isNormalized :: "thrown \<Rightarrow> bool" where
  "isNormalized (Normalized a) = True"
| "isNormalized (Raw e) = False"

text \<open>\<^verbatim>\<open>error.response\<close> and \<^verbatim>\<open>error.code\<close> as JavaScript reads them on either object.\<close>

fun responseOf :: "thrown \<Rightarrow> http_response option" where
  "responseOf (Raw e) = err_response e"
| "responseOf (Normalized a) = None"

fun codeOf :: "thrown \<Rightarrow> string option" where
  "codeOf (Raw e) = err_code e"
| "codeOf (Normalized a) = Some (kindString (kind a))"

definition statusOf :: "thrown \<Rightarrow> int option" where
  "statusOf error = map_option status (responseOf error)"

fun urlOf :: "thrown \<Rightarrow> string option" where
  "urlOf (Raw e) = err_url e"
| "urlOf (Normalized a) = None"

fun methodOf :: "thrown \<Rightarrow> string option" where
  "methodOf (Raw e) = err_method e"
| "methodOf (Normalized a) = None"

definition plainError :: "string \<Rightarrow> thrown" where
  "plainError msg =
     Raw \<lparr>err_code = None, err_message = msg, err_response = None,
          err_url = None, err_method = None\<rparr>"

text \<open>\<^verbatim>\<open>headers['retry-after'] || '60'\<close>\<close>

definition retryAfterHeader :: "http_response \<Rightarrow> string" where
  "retryAfterHeader r =
     (case map_of (headers r) ''retry-after'' of
        None \<Rightarrow> ''60''
      | Some v \<Rightarrow> if v = [] then ''60'' else v)"

section \<open>Connection pool configuration\<close>

record pool_config =
  maxSockets :: int
  maxFreeSockets :: int
  timeout :: int
  keepAlive :: bool
  keepAliveMsecs :: int

text \<open>\<^verbatim>\<open>Partial<ConnectionPoolConfig>\<close>: \<open>None\<close> is an absent key.\<close>

record partial_pool_config =
  p_maxSockets :: "int option"
  p_maxFreeSockets :: "int option"
  p_timeout :: "int option"
  p_keepAlive :: "bool option"
  p_keepAliveMsecs :: "int option"

definition DEFAULT_POOL_CONFIG :: pool_config where
  "DEFAULT_POOL_CONFIG =
     \<lparr>maxSockets = 50, maxFreeSockets = 10, timeout = 30000,
      keepAlive = True, keepAliveMsecs = 1000\<rparr>"

text \<open>\<^verbatim>\<open>{ ...DEFAULT_POOL_CONFIG, ...poolConfig }\<close>\<close>

definition mergePoolConfig :: "pool_config \<Rightarrow> partial_pool_config \<Rightarrow> pool_config" where
  "mergePoolConfig d p =
     \<lparr>maxSockets = (case p_maxSockets p of None \<Rightarrow> maxSockets d | Some v \<Rightarrow> v),
      maxFreeSockets = (case p_maxFreeSockets p of None \<Rightarrow> maxFreeSockets d | Some v \<Rightarrow> v),
      timeout = (case p_timeout p of None \<Rightarrow> timeout d | Some v \<Rightarrow> v),
      keepAlive = (case p_keepAlive p of None \<Rightarrow> keepAlive d | Some v \<Rightarrow> v),
      keepAliveMsecs = (case p_keepAliveMsecs p of None \<Rightarrow> keepAliveMsecs d | Some v \<Rightarrow> v)\<rparr>"

text \<open>A transport agent: the options it was created with, and whether it was destroyed.\<close>

record agent =
  options :: pool_config
  destroyed :: bool

definition newAgent :: "pool_config \<Rightarrow> agent" where
  "newAgent c = \<lparr>options = c, destroyed = False\<rparr>"

section \<open>The world the client runs in\<close>

text \<open>Every effect of the client that a claim can observe, in the order it happens.\<close>

datatype event =
    HttpRequest verb string
  | NetworkCall request
  | TokenExchange
  | TransformError
  | Sleep number
  | CacheGet string params
  | CacheSet string params jsvalue number
  | AgentDestroy agent

text \<open>
  The mutable state: the fields of \<^verbatim>\<open>HelpScoutClient\<close>, the contents of the cache module
  and the trace of events.

  Modelled from the spec: the cache store (\<^verbatim>\<open>cache.ts\<close> is not among the sources) is a
  store from (key, parameters) to a value, with \<^verbatim>\<open>get(key, params)\<close> giving the value or
  \<^verbatim>\<open>undefined\<close>, and \<^verbatim>\<open>set(key, params, value, {ttl})\<close>. Expiry is the store's concern: an
  expired entry is an absent one.
\<close>

record world =
  accessToken :: "string option"
  tokenExpiresAt :: int
  httpAgent :: agent
  httpsAgent :: agent
  cacheStore :: "string \<times> params \<Rightarrow> jsvalue option"
  events :: "event list"

text \<open>
  The inputs the client reads: the configuration (\<^verbatim>\<open>config.helpscout\<close>, from the
  configuration module, which is not among the sources), the clock, the upstream service,
  the token endpoint and the random source. The upstream answers the \<open>n\<close>-th network call
  of a run as a function of \<open>n\<close> and of the request; \<open>random i\<close> is what \<^verbatim>\<open>Math.random()\<close>
  returns for the backoff after attempt \<open>i\<close>, a value in \<open>[0, 1)\<close>.
\<close>

record env =
  apiKey :: "string option"
  clientId :: "string option"
  clientSecret :: "string option"
  now :: int
  upstream :: "nat \<Rightarrow> request \<Rightarrow> transport"
  tokenEndpoint :: "nat \<Rightarrow> (string \<times> int) option"
  random :: "nat \<Rightarrow> real"

definition emit :: "event \<Rightarrow> world \<Rightarrow> world" where
  "emit e w = w\<lparr>events := events w @ [e]\<rparr>"

fun isNetworkCall :: "event \<Rightarrow> bool" where
  "isNetworkCall (NetworkCall r) = True"
| "isNetworkCall e = False"

fun isCacheEvent :: "event \<Rightarrow> bool" where
  "isCacheEvent (CacheGet k p) = True"
| "isCacheEvent (CacheSet k p v t) = True"
| "isCacheEvent e = False"

fun isSleep :: "event \<Rightarrow> bool" where
  "isSleep (Sleep d) = True"
| "isSleep e = False"

definition networkCalls :: "world \<Rightarrow> nat" where
  "networkCalls w = length (filter isNetworkCall (events w))"

definition tokenExchanges :: "world \<Rightarrow> nat" where
  "tokenExchanges w = length (filter (\<lambda>e. e = TokenExchange) (events w))"

definition transformCount :: "world \<Rightarrow> nat" where
  "transformCount w = length (filter (\<lambda>e. e = TransformError) (events w))"

definition httpRequests :: "world \<Rightarrow> nat" where
  "httpRequests w = length (filter (\<lambda>e. case e of HttpRequest v u \<Rightarrow> True | _ \<Rightarrow> False) (events w))"

definition cacheTouches :: "world \<Rightarrow> event list" where
  "cacheTouches w = filter isCacheEvent (events w)"

definition sleeps :: "world \<Rightarrow> event list" where
  "sleeps w = filter isSleep (events w)"

section \<open>The retry executor\<close>

text \<open>\<^verbatim>\<open>RetryConfig\<close>: the number of retries is an integer, the delays are milliseconds.\<close>

record retry_config =
  retries :: int
  retryDelay :: real
  maxRetryDelay :: real
  retryCondition :: "(thrown \<Rightarrow> bool) option"

definition defaultRetryCondition :: "thrown \<Rightarrow> bool" where
  "defaultRetryCondition error =
     (case responseOf error of
        None \<Rightarrow> True
      | Some r \<Rightarrow>
          (if codeOf error = Some ''ECONNABORTED'' then True
           else if status r \<ge> 500 \<and> status r < 600 then True
           else status r = 429))"

definition defaultRetryConfig :: retry_config where
  "defaultRetryConfig =
     \<lparr>retries = 3, retryDelay = 1000, maxRetryDelay = 10000,
      retryCondition = Some defaultRetryCondition\<rparr>"

text \<open>\<^verbatim>\<open>sleep(ms)\<close>: the only effect a claim observes is that the wait happened, and for how long.\<close>

definition sleep :: "number \<Rightarrow> world \<Rightarrow> world" where
  "sleep ms w = emit (Sleep ms) w"

text \<open>\<open>r\<close> is the value of \<^verbatim>\<open>Math.random()\<close>.\<close>

definition calculateRetryDelay :: "real \<Rightarrow> nat \<Rightarrow> real \<Rightarrow> real \<Rightarrow> real" where
  "calculateRetryDelay r attempt baseDelay maxDelay =
     (let exponentialDelay = baseDelay * 2 ^ attempt;
          jitter = r * 0.1 * exponentialDelay
      in min (exponentialDelay + jitter) maxDelay)"

text \<open>\<^verbatim>\<open>retryConfig.retryCondition?.(lastError)\<close>: an absent predicate gives \<^verbatim>\<open>undefined\<close>, which is falsy.\<close>

definition shouldRetry :: "retry_config \<Rightarrow> thrown \<Rightarrow> bool" where
  "shouldRetry cfg error = (case retryCondition cfg of None \<Rightarrow> False | Some p \<Rightarrow> p error)"

text \<open>The delay of the rate-limit branch.\<close>

definition rateLimitDelay :: "retry_config \<Rightarrow> http_response \<Rightarrow> number" where
  "rateLimitDelay cfg r =
     (let retryAfter = jsTimes (parseInt (retryAfterHeader r)) (Fin 1000)
      in jsMin retryAfter (Fin (maxRetryDelay cfg)))"

text \<open>
  The wait before the next attempt: the rate-limit branch when
  \<^verbatim>\<open>lastError.response?.status === 429\<close>, the exponential backoff otherwise.
\<close>

definition retryWait :: "env \<Rightarrow> retry_config \<Rightarrow> nat \<Rightarrow> thrown \<Rightarrow> number" where
  "retryWait env cfg attempt error =
     (case responseOf error of
        None \<Rightarrow> Fin (calculateRetryDelay (random env attempt) attempt (retryDelay cfg) (maxRetryDelay cfg))
      | Some r \<Rightarrow>
          if status r = 429 then rateLimitDelay cfg r
          else Fin (calculateRetryDelay (random env attempt) attempt (retryDelay cfg) (maxRetryDelay cfg)))"

type_synonym 'a outcome = "thrown + 'a"

type_synonym operation = "world \<Rightarrow> http_response outcome \<times> world"

text \<open>
  The loop of \<^verbatim>\<open>executeWithRetry\<close>, from the iteration with index \<open>attempt\<close> on. The result
  is what the method returns or throws, the number of times the operation was invoked, and
  the world afterwards.
\<close>

function retryLoop ::
  "env \<Rightarrow> retry_config \<Rightarrow> operation \<Rightarrow> nat \<Rightarrow> thrown option \<Rightarrow> world
     \<Rightarrow> http_response outcome \<times> nat \<times> world" where
  "retryLoop env cfg operation attempt lastError w =
     (if int attempt \<le> retries cfg then
        (case operation w of
           (Inr response, w1) \<Rightarrow> (Inr response, 1, w1)
         | (Inl error, w1) \<Rightarrow>
             if int attempt = retries cfg then (Inl error, 1, w1)
             else if \<not> shouldRetry cfg error then (Inl error, 1, w1)
             else
               (case retryLoop env cfg operation (Suc attempt) (Some error)
                       (sleep (retryWait env cfg attempt error) w1) of
                  (res, k, w2) \<Rightarrow> (res, Suc k, w2)))
      else
        (Inl (case lastError of
                Some e \<Rightarrow> e
              | None \<Rightarrow> plainError ''Request failed without error details''),
         0, w))"
  by pat_completeness auto
termination
  by (relation "measure (\<lambda>(env, cfg, operation, attempt, lastError, w).
                  nat (retries cfg + 1 - int attempt))") auto

declare retryLoop.simps [simp del]

definition executeWithRetry ::
  "env \<Rightarrow> retry_config \<Rightarrow> operation \<Rightarrow> world \<Rightarrow> http_response outcome \<times> nat \<times> world" where
  "executeWithRetry env cfg operation w = retryLoop env cfg operation 0 None w"

section \<open>Authentication\<close>

definition tokenValid :: "env \<Rightarrow> world \<Rightarrow> bool" where
  "tokenValid env w = (truthyStr (accessToken w) \<and> now env < tokenExpiresAt w)"

definition authFailed :: thrown where
  "authFailed = plainError ''Failed to authenticate with Help Scout API''"

text \<open>
  The personal-access-token test of \<^verbatim>\<open>authenticate\<close> and the token it stores:
  \<^verbatim>\<open>apiKey && apiKey.startsWith('Bearer ')\<close>, then \<^verbatim>\<open>apiKey.replace('Bearer ', '')\<close>.
\<close>

definition staticToken :: "env \<Rightarrow> string option" where
  "staticToken env =
     (case apiKey env of
        None \<Rightarrow> None
      | Some k \<Rightarrow>
          if k \<noteq> [] \<and> startsWith k ''Bearer ''
          then Some (replaceFirst k ''Bearer '' [])
          else None)"

text \<open>
  \<^verbatim>\<open>authenticate\<close>. The static-token branch comes first. The exchange with the token
  endpoint is the only network call of this method; every failure inside the \<^verbatim>\<open>try\<close>
  block is rethrown as the same plain \<^verbatim>\<open>Error\<close>. A successful exchange is taken to carry
  \<^verbatim>\<open>access_token\<close> and \<^verbatim>\<open>expires_in\<close>, as the upstream contract says.
\<close>

definition authenticate :: "env \<Rightarrow> world \<Rightarrow> unit outcome \<times> world" where
  "authenticate env w =
     (case staticToken env of
        Some token \<Rightarrow>
          (Inr (),
           w\<lparr>accessToken := Some token,
             tokenExpiresAt := now env + (24 * 60 * 60 * 1000)\<rparr>)
      | None \<Rightarrow>
          if \<not> (truthyStr (clientId env) \<and> truthyStr (clientSecret env))
          then (Inl authFailed, w)
          else
            (case tokenEndpoint env (tokenExchanges w) of
               None \<Rightarrow> (Inl authFailed, emit TokenExchange w)
             | Some (access_token, expires_in) \<Rightarrow>
                 (Inr (),
                  (emit TokenExchange w)
                    \<lparr>accessToken := Some access_token,
                     tokenExpiresAt := now env + (expires_in * 1000) - 60000\<rparr>)))"

definition ensureAuthenticated :: "env \<Rightarrow> world \<Rightarrow> unit outcome \<times> world" where
  "ensureAuthenticated env w =
     (if tokenValid env w then (Inr (), w) else authenticate env w)"

section \<open>Error normalization\<close>

definition mkApiError :: "error_kind \<Rightarrow> number option \<Rightarrow> thrown \<Rightarrow> api_error" where
  "mkApiError k ra error =
     \<lparr>kind = k, retryAfter = ra, details_url = urlOf error,
      details_method = methodOf error\<rparr>"

text \<open>
  The branches of \<^verbatim>\<open>transformError\<close> in the order of the source. The last three differ in
  the message only.
\<close>

definition classify :: "thrown \<Rightarrow> error_kind \<times> number option" where
  "classify error =
     (case responseOf error of
        Some r \<Rightarrow>
          (if status r = 401 then (UNAUTHORIZED, None)
           else if status r = 403 then (UNAUTHORIZED, None)
           else if status r = 404 then (NOT_FOUND, None)
           else if status r = 429 then (RATE_LIMIT, Some (parseInt (retryAfterHeader r)))
           else if status r = 422 then (INVALID_INPUT, None)
           else if status r \<noteq> 0 \<and> status r \<ge> 400 \<and> status r < 500 then (INVALID_INPUT, None)
           else if codeOf error = Some ''ECONNABORTED'' then (UPSTREAM_ERROR, None)
           else if status r \<noteq> 0 \<and> status r \<ge> 500 then (UPSTREAM_ERROR, None)
           else (UPSTREAM_ERROR, None))
      | None \<Rightarrow>
          (if codeOf error = Some ''ECONNABORTED'' then (UPSTREAM_ERROR, None)
           else (UPSTREAM_ERROR, None)))"

text \<open>
  \<^verbatim>\<open>transformError\<close>: the 401 branch clears the cached token. Each invocation is recorded in
  the trace.
\<close>

definition transformError :: "thrown \<Rightarrow> world \<Rightarrow> api_error \<times> world" where
  "transformError error w =
     (let w1 = emit TransformError w;
          w2 = (if statusOf error = Some 401 then w1\<lparr>accessToken := None\<rparr> else w1)
      in (case classify error of (k, ra) \<Rightarrow> (mkApiError k ra error, w2)))"

section \<open>The HTTP client instance and its interceptors\<close>

text \<open>\<^verbatim>\<open>validateStatus: (status) => status < 500\<close>\<close>

definition validateStatus :: "int \<Rightarrow> bool" where
  "validateStatus s = (s < 500)"

fun verbString :: "verb \<Rightarrow> string" where
  "verbString GET = ''GET''"
| "verbString POST = ''POST''"
| "verbString PUT = ''PUT''"
| "verbString PATCH = ''PATCH''"

text \<open>
  How the HTTP library settles one network call: a response whose status passes
  \<^verbatim>\<open>validateStatus\<close> (or is 0) resolves; every other response, and the absence of one,
  rejects with an error object that carries the request's url and method.
\<close>

definition settle :: "request \<Rightarrow> transport \<Rightarrow> http_response outcome" where
  "settle req t =
     (case t of
        Response r \<Rightarrow>
          if status r = 0 then Inr r
          else if validateStatus (status r) then Inr r
          else Inl (Raw \<lparr>err_code = (if status r < 600 then Some ''ERR_BAD_RESPONSE'' else None),
                        err_message = ''Request failed'',
                        err_response = Some r,
                        err_url = Some (req_url req),
                        err_method = Some (verbString (req_verb req))\<rparr>)
      | NoResponse c \<Rightarrow>
          Inl (Raw \<lparr>err_code = c, err_message = ''Network Error'', err_response = None,
                    err_url = Some (req_url req),
                    err_method = Some (verbString (req_verb req))\<rparr>))"

definition dispatch :: "env \<Rightarrow> request \<Rightarrow> world \<Rightarrow> http_response outcome \<times> world" where
  "dispatch env req w =
     (settle req (upstream env (networkCalls w) req), emit (NetworkCall req) w)"

text \<open>
  The rejection handler of the response interceptor:
  \<^verbatim>\<open>Promise.reject(this.transformError(error))\<close>. A rejection of the request interceptor
  skips the network call and reaches this handler too, as a rejection of the transport
  does.
\<close>

definition onRejected :: "thrown \<Rightarrow> world \<Rightarrow> http_response outcome \<times> world" where
  "onRejected error w =
     (case transformError error w of (a, w1) \<Rightarrow> (Inl (Normalized a), w1))"

text \<open>\<^verbatim>\<open>if (this.accessToken) config.headers.Authorization = `Bearer ${this.accessToken}`\<close>\<close>

definition authorizationHeader :: "string option \<Rightarrow> string option" where
  "authorizationHeader token =
     (case token of
        None \<Rightarrow> None
      | Some t \<Rightarrow> if t \<noteq> [] then Some (''Bearer '' @ t) else None)"

text \<open>
  One call of \<^verbatim>\<open>this.client.get/post/put/patch\<close>: the request interceptor (authentication,
  authorization header), the network call, the response interceptor.
\<close>

definition clientRequest ::
  "env \<Rightarrow> verb \<Rightarrow> string \<Rightarrow> params \<Rightarrow> jsvalue \<Rightarrow> operation" where
  "clientRequest env v endpoint ps body w =
     (case ensureAuthenticated env (emit (HttpRequest v endpoint) w) of
        (Inl error, w1) \<Rightarrow> onRejected error w1
      | (Inr u, w1) \<Rightarrow>
          (let req = \<lparr>req_verb = v, req_url = endpoint, req_params = ps, req_body = body,
                      req_authorization = authorizationHeader (accessToken w1)\<rparr>
           in (case dispatch env req w1 of
                 (Inr response, w2) \<Rightarrow> (Inr response, w2)
               | (Inl error, w2) \<Rightarrow> onRejected error w2)))"

section \<open>The public verbs\<close>

definition cacheGet :: "string \<Rightarrow> params \<Rightarrow> world \<Rightarrow> jsvalue \<times> world" where
  "cacheGet key ps w =
     ((case cacheStore w (key, ps) of None \<Rightarrow> JUndefined | Some v \<Rightarrow> v),
      emit (CacheGet key ps) w)"

definition cacheSet :: "string \<Rightarrow> params \<Rightarrow> jsvalue \<Rightarrow> number \<Rightarrow> world \<Rightarrow> world" where
  "cacheSet key ps v ttl w =
     (emit (CacheSet key ps v ttl) w)\<lparr>cacheStore := (cacheStore w)((key, ps) \<mapsto> v)\<rparr>"

definition getDefaultCacheTtl :: "string \<Rightarrow> number" where
  "getDefaultCacheTtl endpoint =
     (if includesStr endpoint ''/conversations'' then Fin 300
      else if includesStr endpoint ''/mailboxes'' then Fin 1440
      else if includesStr endpoint ''/threads'' then Fin 300
      else Fin 300)"

text \<open>
  \<^verbatim>\<open>cacheOptions?.ttl || cacheOptions?.ttl === 0\<close>: the caller's ttl is used when it is a
  number other than NaN. \<open>None\<close> stands for absent options or an absent ttl.
\<close>

definition chooseTtl :: "number option \<Rightarrow> string \<Rightarrow> number" where
  "chooseTtl ttl endpoint =
     (case ttl of
        Some (Fin t) \<Rightarrow> Fin t
      | Some NaN \<Rightarrow> getDefaultCacheTtl endpoint
      | None \<Rightarrow> getDefaultCacheTtl endpoint)"

definition get ::
  "env \<Rightarrow> string \<Rightarrow> params \<Rightarrow> number option \<Rightarrow> world \<Rightarrow> jsvalue outcome \<times> world" where
  "get env endpoint ps ttl w =
     (let cacheKey = ''GET:'' @ endpoint
      in (case cacheGet cacheKey ps w of
            (cachedResult, w1) \<Rightarrow>
              if truthy cachedResult then (Inr cachedResult, w1)
              else
                (case executeWithRetry env defaultRetryConfig
                        (clientRequest env GET endpoint ps JUndefined) w1 of
                   (Inl error, k, w2) \<Rightarrow> (Inl error, w2)
                 | (Inr response, k, w2) \<Rightarrow>
                     (Inr (data response),
                      cacheSet cacheKey ps (data response) (chooseTtl ttl endpoint) w2))))"

text \<open>\<^verbatim>\<open>put\<close> and \<^verbatim>\<open>patch\<close>: a 204 response gives \<^verbatim>\<open>undefined\<close>.\<close>

definition put :: "env \<Rightarrow> string \<Rightarrow> jsvalue \<Rightarrow> world \<Rightarrow> jsvalue outcome \<times> world" where
  "put env endpoint body w =
     (case executeWithRetry env defaultRetryConfig (clientRequest env PUT endpoint None body) w of
        (Inl error, k, w1) \<Rightarrow> (Inl error, w1)
      | (Inr response, k, w1) \<Rightarrow>
          if status response = 204 then (Inr JUndefined, w1) else (Inr (data response), w1))"

definition patch :: "env \<Rightarrow> string \<Rightarrow> jsvalue \<Rightarrow> world \<Rightarrow> jsvalue outcome \<times> world" where
  "patch env endpoint body w =
     (case executeWithRetry env defaultRetryConfig (clientRequest env PATCH endpoint None body) w of
        (Inl error, k, w1) \<Rightarrow> (Inl error, w1)
      | (Inr response, k, w1) \<Rightarrow>
          if status response = 204 then (Inr JUndefined, w1) else (Inr (data response), w1))"

text \<open>
  What \<^verbatim>\<open>post\<close> returns: the response data, or the object \<^verbatim>\<open>{ ...response.data, id }\<close> with
  the parsed \<^verbatim>\<open>resource-id\<close> header.
\<close>

datatype post_result = PostData jsvalue | PostDataWithId jsvalue number

definition post :: "env \<Rightarrow> string \<Rightarrow> jsvalue \<Rightarrow> world \<Rightarrow> post_result outcome \<times> world" where
  "post env endpoint body w =
     (case executeWithRetry env defaultRetryConfig (clientRequest env POST endpoint None body) w of
        (Inl error, k, w1) \<Rightarrow> (Inl error, w1)
      | (Inr response, k, w1) \<Rightarrow>
          (case map_of (headers response) ''resource-id'' of
             None \<Rightarrow> (Inr (PostData (data response)), w1)
           | Some resourceId \<Rightarrow>
               if resourceId \<noteq> []
               then (Inr (PostDataWithId (data response) (parseInt resourceId)), w1)
               else (Inr (PostData (data response)), w1)))"

section \<open>Construction and pool lifecycle\<close>

text \<open>The constructor; the cache module's store is not the client's and is passed in.\<close>

definition newClient :: "partial_pool_config \<Rightarrow> (string \<times> params \<Rightarrow> jsvalue option) \<Rightarrow> world" where
  "newClient poolConfig store =
     (let finalPoolConfig = mergePoolConfig DEFAULT_POOL_CONFIG poolConfig
      in \<lparr>accessToken = None, tokenExpiresAt = 0,
          httpAgent = newAgent finalPoolConfig, httpsAgent = newAgent finalPoolConfig,
          cacheStore = store, events = []\<rparr>)"

definition clearIdleConnections :: "world \<Rightarrow> world" where
  "clearIdleConnections w =
     (let w1 = emit (AgentDestroy (httpAgent w)) w;
          w2 = emit (AgentDestroy (httpsAgent w)) w1;
          poolConfig = \<lparr>maxSockets = 50, maxFreeSockets = 10, timeout = 30000,
                        keepAlive = True, keepAliveMsecs = 1000\<rparr>
      in w2\<lparr>httpAgent := newAgent poolConfig, httpsAgent := newAgent poolConfig\<rparr>)"

section \<open>Observations used by the properties\<close>

text \<open>The error a call ends with, if it ends with one.\<close>

fun failure :: "'a outcome \<Rightarrow> thrown option" where
  "failure (Inl e) = Some e"
| "failure (Inr x) = None"

text \<open>
  The request interceptor can get past authentication or at least reaches the token
  endpoint: a valid token is cached, or a personal access token is configured, or both
  client id and client secret are configured.
\<close>

definition canAuthenticate :: "env \<Rightarrow> world \<Rightarrow> bool" where
  "canAuthenticate env w =
     (if tokenValid env w then True
      else if staticToken env \<noteq> None then True
      else truthyStr (clientId env) \<and> truthyStr (clientSecret env))"

section \<open>Concrete scenarios\<close>

text \<open>An upstream service that answers every call with the same response.\<close>

definition respondWith ::
  "int \<Rightarrow> (string \<times> string) list \<Rightarrow> jsvalue \<Rightarrow> nat \<Rightarrow> request \<Rightarrow> transport" where
  "respondWith s hs d n req = Response \<lparr>status = s, headers = hs, data = d\<rparr>"

text \<open>A configuration with a personal access token and, next to it, client credentials.\<close>

definition staticEnv :: "(nat \<Rightarrow> request \<Rightarrow> transport) \<Rightarrow> env" where
  "staticEnv up =
     \<lparr>apiKey = Some ''Bearer pat-123'', clientId = Some ''id'', clientSecret = Some ''secret'',
      now = 1000, upstream = up, tokenEndpoint = (\<lambda>n. Some (''oauth-token'', 3600)),
      random = (\<lambda>i. 1 / 2)\<rparr>"

text \<open>A configuration with client credentials only.\<close>

definition oauthEnv :: "(nat \<Rightarrow> request \<Rightarrow> transport) \<Rightarrow> env" where
  "oauthEnv up =
     \<lparr>apiKey = None, clientId = Some ''id'', clientSecret = Some ''secret'',
      now = 1000, upstream = up, tokenEndpoint = (\<lambda>n. Some (''oauth-token'', 3600)),
      random = (\<lambda>i. 1 / 2)\<rparr>"

definition noPoolOptions :: partial_pool_config where
  "noPoolOptions =
     \<lparr>p_maxSockets = None, p_maxFreeSockets = None, p_timeout = None,
      p_keepAlive = None, p_keepAliveMsecs = None\<rparr>"

text \<open>A client constructed with default pool options, next to an empty cache.\<close>

definition freshWorld :: world where
  "freshWorld = newClient noPoolOptions (\<lambda>k. None)"

text \<open>A raw transport error that carries a response with the given status and headers.\<close>

definition responseError :: "int \<Rightarrow> (string \<times> string) list \<Rightarrow> thrown" where
  "responseError s hs =
     Raw \<lparr>err_code = None, err_message = ''Request failed'',
          err_response = Some \<lparr>status = s, headers = hs, data = JNull\<rparr>,
          err_url = None, err_method = None\<rparr>"

text \<open>An operation that fails with the same error at every attempt.\<close>

definition alwaysFail :: "thrown \<Rightarrow> operation" where
  "alwaysFail e w = (Inl e, w)"

text \<open>A client next to a cache that holds one entry, for \<^verbatim>\<open>GET /mailboxes\<close> without parameters.\<close>

definition cachedWorld :: "jsvalue \<Rightarrow> world" where
  "cachedWorld v =
     newClient noPoolOptions (\<lambda>k. if k = (''GET:/mailboxes'', None) then Some v else None)"

text \<open>Pool options that differ from the defaults.\<close>

definition customPoolOptions :: partial_pool_config where
  "customPoolOptions =
     \<lparr>p_maxSockets = Some 100, p_maxFreeSockets = Some 20, p_timeout = None,
      p_keepAlive = None, p_keepAliveMsecs = None\<rparr>"

text \<open>The normalized error of a failure that is none of the 4xx cases.\<close>

definition upstreamError :: "string \<Rightarrow> string \<Rightarrow> thrown" where
  "upstreamError u m =
     Normalized \<lparr>kind = UPSTREAM_ERROR, retryAfter = None, details_url = Some u,
                 details_method = Some m\<rparr>"

section \<open>Running the retry loop\<close>

text \<open>One equation for each way an iteration of the loop can go.\<close>

lemma retryLoop_exit:
  "\<not> int attempt \<le> retries cfg \<Longrightarrow>
   retryLoop env cfg operation attempt lastError w =
     (Inl (case lastError of Some e \<Rightarrow> e
           | None \<Rightarrow> plainError ''Request failed without error details''), 0, w)"
  by (subst retryLoop.simps) simp

lemma retryLoop_success:
  "int attempt \<le> retries cfg \<Longrightarrow> operation w = (Inr response, w1) \<Longrightarrow>
   retryLoop env cfg operation attempt lastError w = (Inr response, 1, w1)"
  by (subst retryLoop.simps) simp

lemma retryLoop_last:
  "int attempt = retries cfg \<Longrightarrow> operation w = (Inl error, w1) \<Longrightarrow>
   retryLoop env cfg operation attempt lastError w = (Inl error, 1, w1)"
  by (subst retryLoop.simps) simp

lemma retryLoop_rejected:
  "int attempt \<le> retries cfg \<Longrightarrow> operation w = (Inl error, w1) \<Longrightarrow>
   \<not> shouldRetry cfg error \<Longrightarrow>
   retryLoop env cfg operation attempt lastError w = (Inl error, 1, w1)"
  by (subst retryLoop.simps) simp

lemma retryLoop_retry:
  "int attempt < retries cfg \<Longrightarrow> operation w = (Inl error, w1) \<Longrightarrow>
   shouldRetry cfg error \<Longrightarrow>
   retryLoop env cfg operation (Suc attempt) (Some error)
     (sleep (retryWait env cfg attempt error) w1) = (res, k, w2) \<Longrightarrow>
   retryLoop env cfg operation attempt lastError w = (res, Suc k, w2)"
  by (subst retryLoop.simps) simp

lemma retryLoop_run_induct [consumes 0, case_names exit success stop retry]:
  assumes exit: "\<And>attempt lastError w. \<not> int attempt \<le> retries cfg \<Longrightarrow>
            P attempt lastError w
              (Inl (case lastError of Some e \<Rightarrow> e
                    | None \<Rightarrow> plainError ''Request failed without error details''), 0, w)"
    and success: "\<And>attempt lastError w response w1. int attempt \<le> retries cfg \<Longrightarrow>
            operation w = (Inr response, w1) \<Longrightarrow> P attempt lastError w (Inr response, 1, w1)"
    and stop: "\<And>attempt lastError w error w1. int attempt \<le> retries cfg \<Longrightarrow>
            operation w = (Inl error, w1) \<Longrightarrow>
            int attempt = retries cfg \<or> \<not> shouldRetry cfg error \<Longrightarrow>
            P attempt lastError w (Inl error, 1, w1)"
    and retry: "\<And>attempt lastError w error w1 res k w2. int attempt < retries cfg \<Longrightarrow>
            operation w = (Inl error, w1) \<Longrightarrow> shouldRetry cfg error \<Longrightarrow>
            retryLoop env cfg operation (Suc attempt) (Some error)
              (sleep (retryWait env cfg attempt error) w1) = (res, k, w2) \<Longrightarrow>
            P (Suc attempt) (Some error) (sleep (retryWait env cfg attempt error) w1) (res, k, w2) \<Longrightarrow>
            P attempt lastError w (res, Suc k, w2)"
  shows "P attempt lastError w (retryLoop env cfg operation attempt lastError w)"
  using assms
proof (induction env cfg operation attempt lastError w rule: retryLoop.induct)
  case (1 env cfg operation attempt lastError w)
  show ?case
  proof (cases "int attempt \<le> retries cfg")
    case False
    then show ?thesis using "1.prems"(1) by (simp add: retryLoop_exit)
  next
    case inloop: True
    obtain res w1 where op: "operation w = (res, w1)" by (cases "operation w")
    show ?thesis
    proof (cases res)
      case (Inr response)
      with inloop op show ?thesis using "1.prems"(2) by (simp add: retryLoop_success)
    next
      case (Inl error)
      show ?thesis
      proof (cases "int attempt = retries cfg \<or> \<not> shouldRetry cfg error")
        case True
        then have "retryLoop env cfg operation attempt lastError w = (Inl error, 1, w1)"
          using inloop op Inl by (auto simp: retryLoop_last retryLoop_rejected)
        then show ?thesis using "1.prems"(3) [OF inloop _ True] op Inl by simp
      next
        case False
        then have ne: "int attempt \<noteq> retries cfg" and sr: "shouldRetry cfg error" by auto
        obtain r k w2 where rec: "retryLoop env cfg operation (Suc attempt) (Some error)
                    (sleep (retryWait env cfg attempt error) w1) = (r, k, w2)"
          by (cases "retryLoop env cfg operation (Suc attempt) (Some error)
                    (sleep (retryWait env cfg attempt error) w1)") 
        have ih: "P (Suc attempt) (Some error) (sleep (retryWait env cfg attempt error) w1) (r, k, w2)"
          using "1.IH" [OF inloop op [symmetric] Inl ne _ "1.prems"] sr rec by simp
        have lt: "int attempt < retries cfg" using inloop ne by simp
        have "retryLoop env cfg operation attempt lastError w = (r, Suc k, w2)"
          using retryLoop_retry [OF lt _ sr rec] op Inl by simp
        then show ?thesis using "1.prems"(4) [OF lt _ sr rec ih] op Inl by simp
      qed
    qed
  qed
qed

lemma retryLoop_attempts_le:
  "fst (snd (retryLoop env cfg operation attempt lastError w))
     \<le> nat (retries cfg + 1 - int attempt)"
  by (rule retryLoop_run_induct [where P = "\<lambda>attempt lastError w r. fst (snd r) \<le> nat (retries cfg + 1 - int attempt)"]) auto

lemma retryLoop_preserves:
  assumes "\<And>w. f (snd (operation w)) = f w" and "\<And>d w. f (sleep d w) = f w"
  shows "f (snd (snd (retryLoop env cfg operation attempt lastError w))) = f w"
proof (rule retryLoop_run_induct [where P = "\<lambda>attempt lastError w r. f (snd (snd r)) = f w"])
  fix w :: world and  response w1 assume "operation w = (Inr response, w1)"
  then show "f (snd (snd (Inr response, 1::nat, w1))) = f w" using assms(1) [of w] by simp
next
  fix w :: world and error w1 assume "operation w = (Inl error, w1)"
  then show "f (snd (snd (Inl error :: http_response outcome, 1::nat, w1))) = f w" using assms(1) [of w] by simp
next
  fix attempt w error w1 res k w2
  assume "operation w = (Inl error, w1)"
    and "f (snd (snd (res :: http_response outcome, k :: nat, w2))) = f (sleep (retryWait env cfg attempt error) w1)"
  then show "f (snd (snd (res, Suc k, w2))) = f w" using assms(1) [of w] assms(2) by simp
qed simp

section \<open>What one request does to the world\<close>

lemma authenticate_events:
  "events (snd (authenticate env w)) = events w
   \<or> events (snd (authenticate env w)) = events w @ [TokenExchange]"
  by (simp add: authenticate_def emit_def split: option.split prod.split)

lemma authenticate_cacheStore:
  "cacheStore (snd (authenticate env w)) = cacheStore w"
  by (simp add: authenticate_def emit_def split: option.split prod.split)

lemma ensureAuthenticated_events:
  "events (snd (ensureAuthenticated env w)) = events w
   \<or> events (snd (ensureAuthenticated env w)) = events w @ [TokenExchange]"
  using authenticate_events [of env w] by (simp add: ensureAuthenticated_def)

lemma ensureAuthenticated_cacheStore:
  "cacheStore (snd (ensureAuthenticated env w)) = cacheStore w"
  by (simp add: ensureAuthenticated_def authenticate_cacheStore)

lemma onRejected_effect:
  "onRejected error w = (res, w1) \<Longrightarrow>
   (\<exists>a. res = Inl (Normalized a)) \<and> events w1 = events w @ [TransformError]
   \<and> cacheStore w1 = cacheStore w"
  by (auto simp: onRejected_def transformError_def emit_def Let_def split: prod.splits)

lemma dispatch_effect:
  "dispatch env req w = (res, w1) \<Longrightarrow>
   events w1 = events w @ [NetworkCall req] \<and> cacheStore w1 = cacheStore w"
  by (auto simp: dispatch_def emit_def)



lemmas measure_defs = cacheTouches_def httpRequests_def transformCount_def networkCalls_def
  tokenExchanges_def

lemma clientRequest_effect:
  assumes run: "clientRequest env v endpoint ps body w = (res, w1)"
  shows "cacheStore w1 = cacheStore w \<and> cacheTouches w1 = cacheTouches w
    \<and> httpRequests w1 = Suc (httpRequests w)
    \<and> networkCalls w \<le> networkCalls w1 \<and> tokenExchanges w \<le> tokenExchanges w1
    \<and> (case res of
          Inl e \<Rightarrow> isNormalized e \<and> transformCount w1 = Suc (transformCount w)
        | Inr r \<Rightarrow> transformCount w1 = transformCount w
                    \<and> networkCalls w1 = Suc (networkCalls w))"
proof -
  let ?w0 = "emit (HttpRequest v endpoint) w"
  obtain a wa where auth: "ensureAuthenticated env ?w0 = (a, wa)"
    by (cases "ensureAuthenticated env ?w0")
  have ev0: "events ?w0 = events w @ [HttpRequest v endpoint]" and cs0: "cacheStore ?w0 = cacheStore w"
    by (simp_all add: emit_def)
  from ensureAuthenticated_events [of env ?w0] ensureAuthenticated_cacheStore [of env ?w0] auth ev0 cs0
  obtain au where eva: "events wa = events w @ HttpRequest v endpoint # au"
    and au: "au = [] \<or> au = [TokenExchange]" and csa: "cacheStore wa = cacheStore w"
    by auto
  show ?thesis
  proof (cases a)
    case (Inl error)
    then have "onRejected error wa = (res, w1)"
      using run auth by (simp add: clientRequest_def)
    from onRejected_effect [OF this] eva au csa show ?thesis
      by (auto simp: measure_defs)
  next
    case (Inr u)
    let ?req = "\<lparr>req_verb = v, req_url = endpoint, req_params = ps, req_body = body,
                      req_authorization = authorizationHeader (accessToken wa)\<rparr>"
    obtain d wd where disp: "dispatch env ?req wa = (d, wd)"
      by (cases "dispatch env ?req wa")
    from dispatch_effect [OF disp] eva csa
    have evd: "events wd = events w @ HttpRequest v endpoint # au @ [NetworkCall ?req]"
      and csd: "cacheStore wd = cacheStore w" by simp_all
    show ?thesis
    proof (cases d)
      case ok: (Inr response)
      then have "res = Inr response" "w1 = wd"
        using run auth Inr disp by (simp_all add: clientRequest_def Let_def)
      with evd csd au show ?thesis by (auto simp: measure_defs)
    next
      case fail: (Inl error)
      then have "onRejected error wd = (res, w1)"
        using run auth Inr disp by (simp add: clientRequest_def Let_def)
      from onRejected_effect [OF this] evd csd au show ?thesis
        by (auto simp: measure_defs)
    qed
  qed
qed


lemma sleep_measures:
  "cacheStore (sleep d w) = cacheStore w" "cacheTouches (sleep d w) = cacheTouches w"
  "httpRequests (sleep d w) = httpRequests w" "networkCalls (sleep d w) = networkCalls w"
  "tokenExchanges (sleep d w) = tokenExchanges w" "transformCount (sleep d w) = transformCount w"
  by (simp_all add: sleep_def emit_def measure_defs)

lemma retryLoop_clientRequest:
  fixes env v endpoint ps body cfg
  defines "operation \<equiv> clientRequest env v endpoint ps body"
  assumes run: "retryLoop env cfg operation attempt lastError w = (res, k, w')"
  shows "cacheStore w' = cacheStore w \<and> cacheTouches w' = cacheTouches w
    \<and> httpRequests w' = httpRequests w + k
    \<and> networkCalls w \<le> networkCalls w' \<and> tokenExchanges w \<le> tokenExchanges w'
    \<and> (int attempt \<le> retries cfg \<longrightarrow> 1 \<le> k \<and>
         (case res of
            Inl e \<Rightarrow> isNormalized e \<and> transformCount w' = transformCount w + k
          | Inr r \<Rightarrow> Suc (transformCount w') = transformCount w + k
                      \<and> networkCalls w < networkCalls w'))"
proof -
  let ?P = "\<lambda>attempt (lastError :: thrown option) w (x :: http_response outcome \<times> nat \<times> world).
    case x of (res, k, w') \<Rightarrow>
    cacheStore w' = cacheStore w \<and> cacheTouches w' = cacheTouches w
    \<and> httpRequests w' = httpRequests w + k
    \<and> networkCalls w \<le> networkCalls w' \<and> tokenExchanges w \<le> tokenExchanges w'
    \<and> (int attempt \<le> retries cfg \<longrightarrow> 1 \<le> k \<and>
         (case res of
            Inl e \<Rightarrow> isNormalized e \<and> transformCount w' = transformCount w + k
          | Inr r \<Rightarrow> Suc (transformCount w') = transformCount w + k
                      \<and> networkCalls w < networkCalls w'))"
  have "?P attempt lastError w (retryLoop env cfg operation attempt lastError w)"
  proof (induction rule: retryLoop_run_induct [where P = ?P])
    case (exit attempt lastError w)
    then show ?case by simp
  next
    case (success attempt lastError w response w1)
    from clientRequest_effect [OF this(2) [unfolded operation_def]] show ?case by simp
  next
    case (stop attempt lastError w error w1)
    from clientRequest_effect [OF this(2) [unfolded operation_def]] show ?case by simp
  next
    case (retry attempt lastError w error w1 res k w2)
    from clientRequest_effect [OF retry(2) [unfolded operation_def]] retry(1,5)
    show ?case by (simp add: sleep_measures split: sum.splits)
  qed
  with run show ?thesis by simp
qed

section \<open>What a public verb does to the world\<close>

lemma executeWithRetry_clientRequest:
  assumes "executeWithRetry env cfg (clientRequest env v endpoint ps body) w = (res, k, w')"
  shows "cacheStore w' = cacheStore w \<and> cacheTouches w' = cacheTouches w
    \<and> httpRequests w' = httpRequests w + k
    \<and> networkCalls w \<le> networkCalls w' \<and> tokenExchanges w \<le> tokenExchanges w'
    \<and> (0 \<le> retries cfg \<longrightarrow> 1 \<le> k \<and>
         (case res of
            Inl e \<Rightarrow> isNormalized e \<and> transformCount w' = transformCount w + k
          | Inr r \<Rightarrow> Suc (transformCount w') = transformCount w + k
                      \<and> networkCalls w < networkCalls w'))"
  using retryLoop_clientRequest [OF assms [unfolded executeWithRetry_def]] by simp

lemma post_world:
  "executeWithRetry env defaultRetryConfig (clientRequest env POST endpoint None body) w = (res, k, w')
   \<Longrightarrow> snd (post env endpoint body w) = w' \<and> failure (fst (post env endpoint body w)) = failure res"
  by (simp add: post_def split: sum.splits option.splits)

lemma put_world:
  "executeWithRetry env defaultRetryConfig (clientRequest env PUT endpoint None body) w = (res, k, w')
   \<Longrightarrow> snd (put env endpoint body w) = w' \<and> failure (fst (put env endpoint body w)) = failure res"
  by (simp add: put_def split: sum.splits)

lemma patch_world:
  "executeWithRetry env defaultRetryConfig (clientRequest env PATCH endpoint None body) w = (res, k, w')
   \<Longrightarrow> snd (patch env endpoint body w) = w' \<and> failure (fst (patch env endpoint body w)) = failure res"
  by (simp add: patch_def split: sum.splits)

lemma post_cache:
  "cacheTouches (snd (post env endpoint body w)) = cacheTouches w
   \<and> cacheStore (snd (post env endpoint body w)) = cacheStore w"
proof -
  obtain res k w' where run:
    "executeWithRetry env defaultRetryConfig (clientRequest env POST endpoint None body) w = (res, k, w')"
    by (cases "executeWithRetry env defaultRetryConfig (clientRequest env POST endpoint None body) w")
  from post_world [OF run] executeWithRetry_clientRequest [OF run] show ?thesis by simp
qed

lemma put_cache:
  "cacheTouches (snd (put env endpoint body w)) = cacheTouches w
   \<and> cacheStore (snd (put env endpoint body w)) = cacheStore w"
proof -
  obtain res k w' where run:
    "executeWithRetry env defaultRetryConfig (clientRequest env PUT endpoint None body) w = (res, k, w')"
    by (cases "executeWithRetry env defaultRetryConfig (clientRequest env PUT endpoint None body) w")
  from put_world [OF run] executeWithRetry_clientRequest [OF run] show ?thesis by simp
qed

lemma patch_cache:
  "cacheTouches (snd (patch env endpoint body w)) = cacheTouches w
   \<and> cacheStore (snd (patch env endpoint body w)) = cacheStore w"
proof -
  obtain res k w' where run:
    "executeWithRetry env defaultRetryConfig (clientRequest env PATCH endpoint None body) w = (res, k, w')"
    by (cases "executeWithRetry env defaultRetryConfig (clientRequest env PATCH endpoint None body) w")
  from patch_world [OF run] executeWithRetry_clientRequest [OF run] show ?thesis by simp
qed

section \<open>The retry policy\<close>

lemma defaultRetryCondition_iff:
  "defaultRetryCondition e \<longleftrightarrow>
     (responseOf e = None \<or> codeOf e = Some ''ECONNABORTED''
      \<or> (\<exists>r. responseOf e = Some r \<and> ((500 \<le> status r \<and> status r \<le> 599) \<or> status r = 429)))"
  by (auto simp: defaultRetryCondition_def split: option.splits)

text \<open>
  Claim C1. The retry executor invokes the wrapped operation at most \<open>retries + 1\<close> times,
  which is 4 with the default policy. A failure at the last allowed attempt (index
  \<open>retries\<close>) is the result of the loop, with no further invocation and no wait: the count
  from that iteration on is 1 and the world is the one the failing attempt left. The same
  holds for a failure that the retry predicate rejects, or when no predicate is configured.
  The default predicate accepts an error exactly when it has no response, or its code is
  \<^verbatim>\<open>ECONNABORTED\<close>, or the response status lies in 500..599, or the status is 429.
\<close>

theorem C1_retry_executor_attempt_budget:
  "fst (snd (executeWithRetry env cfg operation w)) \<le> nat (retries cfg + 1)
   \<and> nat (retries defaultRetryConfig + 1) = 4
   \<and> (int attempt = retries cfg \<and> operation w = (Inl error, w1) \<longrightarrow>
        retryLoop env cfg operation attempt lastError w = (Inl error, 1, w1))
   \<and> (int attempt \<le> retries cfg \<and> operation w = (Inl error, w1) \<and> \<not> shouldRetry cfg error \<longrightarrow>
        retryLoop env cfg operation attempt lastError w = (Inl error, 1, w1))
   \<and> retryCondition defaultRetryConfig = Some defaultRetryCondition
   \<and> (defaultRetryCondition e \<longleftrightarrow>
        (responseOf e = None \<or> codeOf e = Some ''ECONNABORTED''
         \<or> (\<exists>r. responseOf e = Some r
                \<and> ((500 \<le> status r \<and> status r \<le> 599) \<or> status r = 429))))"
proof -
  have "fst (snd (executeWithRetry env cfg operation w)) \<le> nat (retries cfg + 1)"
    using retryLoop_attempts_le [of env cfg operation 0 None w]
    by (simp add: executeWithRetry_def)
  moreover have "nat (retries defaultRetryConfig + 1) = 4"
    by (simp add: defaultRetryConfig_def)
  moreover have "retryCondition defaultRetryConfig = Some defaultRetryCondition"
    by (simp add: defaultRetryConfig_def)
  ultimately show ?thesis
    using defaultRetryCondition_iff [of e]
    by (simp add: retryLoop_last retryLoop_rejected)
qed

theorem C1_retry_executor_attempt_budget_witness:
  "int 3 = retries defaultRetryConfig
   \<and> alwaysFail (responseError 503 []) freshWorld = (Inl (responseError 503 []), freshWorld)
   \<and> retryLoop (staticEnv (respondWith 200 [] JNull)) defaultRetryConfig
        (alwaysFail (responseError 503 [])) 3 None freshWorld
      = (Inl (responseError 503 []), 1, freshWorld)
   \<and> int 0 \<le> retries defaultRetryConfig
   \<and> alwaysFail (responseError 404 []) freshWorld = (Inl (responseError 404 []), freshWorld)
   \<and> \<not> shouldRetry defaultRetryConfig (responseError 404 [])
   \<and> retryLoop (staticEnv (respondWith 200 [] JNull)) defaultRetryConfig
        (alwaysFail (responseError 404 [])) 0 None freshWorld
      = (Inl (responseError 404 []), 1, freshWorld)
   \<and> fst (snd (executeWithRetry (staticEnv (respondWith 200 [] JNull)) defaultRetryConfig
        (alwaysFail (responseError 503 [])) freshWorld)) \<le> 4"
proof -
  have a: "int 3 = retries defaultRetryConfig" by (simp add: defaultRetryConfig_def)
  have b: "alwaysFail (responseError 503 []) freshWorld = (Inl (responseError 503 []), freshWorld)"
    by (simp add: alwaysFail_def)
  have c: "alwaysFail (responseError 404 []) freshWorld = (Inl (responseError 404 []), freshWorld)"
    by (simp add: alwaysFail_def)
  have d: "\<not> shouldRetry defaultRetryConfig (responseError 404 [])"
    by (simp add: shouldRetry_def defaultRetryConfig_def defaultRetryCondition_def responseError_def)
  have e: "int 0 \<le> retries defaultRetryConfig" by (simp add: defaultRetryConfig_def)
  note t1 = C1_retry_executor_attempt_budget [of "staticEnv (respondWith 200 [] JNull)"
      defaultRetryConfig "alwaysFail (responseError 503 [])" freshWorld 3 "responseError 503 []"
      freshWorld None "responseError 503 []"]
  note t2 = C1_retry_executor_attempt_budget [of "staticEnv (respondWith 200 [] JNull)"
      defaultRetryConfig "alwaysFail (responseError 404 [])" freshWorld 0 "responseError 404 []"
      freshWorld None "responseError 404 []"]
  from t1 a b have "retryLoop (staticEnv (respondWith 200 [] JNull)) defaultRetryConfig
        (alwaysFail (responseError 503 [])) 3 None freshWorld
      = (Inl (responseError 503 []), 1, freshWorld)" by blast
  moreover from t2 c d e have "retryLoop (staticEnv (respondWith 200 [] JNull)) defaultRetryConfig
        (alwaysFail (responseError 404 [])) 0 None freshWorld
      = (Inl (responseError 404 []), 1, freshWorld)" by blast
  moreover from t1 have "fst (snd (executeWithRetry (staticEnv (respondWith 200 [] JNull)) defaultRetryConfig
        (alwaysFail (responseError 503 [])) freshWorld)) \<le> 4" by simp
  ultimately show ?thesis using a b c d e by blast
qed

text \<open>
  Claim C3. For a retryable failure at attempt index \<open>i\<close> that is not a 429, the wait is
  \<^verbatim>\<open>calculateRetryDelay\<close>: the exponential value \<open>base * 2 ^ i\<close> plus a jitter between 0 and
  10 percent of that value, capped at the maximum delay of the policy. The random draw is
  in \<open>[0, 1)\<close> and the base delay is not negative; numbers are idealised as reals.
\<close>

theorem C3_backoff_delay_bounded:
  assumes "statusOf error \<noteq> Some 429" and "0 \<le> random env attempt" and "random env attempt < 1"
    and "0 \<le> retryDelay cfg"
  shows "retryWait env cfg attempt error
           = Fin (calculateRetryDelay (random env attempt) attempt (retryDelay cfg) (maxRetryDelay cfg))
    \<and> calculateRetryDelay (random env attempt) attempt (retryDelay cfg) (maxRetryDelay cfg)
           = min (retryDelay cfg * 2 ^ attempt
                   + random env attempt * 0.1 * (retryDelay cfg * 2 ^ attempt))
                 (maxRetryDelay cfg)
    \<and> 0 \<le> random env attempt * 0.1 * (retryDelay cfg * 2 ^ attempt)
    \<and> random env attempt * 0.1 * (retryDelay cfg * 2 ^ attempt) \<le> 0.1 * (retryDelay cfg * 2 ^ attempt)
    \<and> calculateRetryDelay (random env attempt) attempt (retryDelay cfg) (maxRetryDelay cfg)
           \<le> maxRetryDelay cfg"
proof -
  let ?e = "retryDelay cfg * 2 ^ attempt"
  have e0: "0 \<le> ?e" using assms(4) by simp
  have w: "retryWait env cfg attempt error
           = Fin (calculateRetryDelay (random env attempt) attempt (retryDelay cfg) (maxRetryDelay cfg))"
    using assms(1) by (simp add: retryWait_def statusOf_def split: option.splits)
  have j0: "0 \<le> random env attempt * 0.1 * ?e"
    using assms(2) e0 by simp
  have "random env attempt * ?e \<le> 1 * ?e"
    using assms(3) e0 by (intro mult_right_mono) simp_all
  then have j1: "random env attempt * 0.1 * ?e \<le> 0.1 * ?e" by simp
  show ?thesis using w j0 j1 by (simp add: calculateRetryDelay_def Let_def)
qed

theorem C3_backoff_delay_bounded_witness:
  "statusOf (responseError 503 []) \<noteq> Some 429
   \<and> 0 \<le> random (staticEnv (respondWith 200 [] JNull)) 2
   \<and> random (staticEnv (respondWith 200 [] JNull)) 2 < 1
   \<and> 0 \<le> retryDelay defaultRetryConfig
   \<and> retryWait (staticEnv (respondWith 200 [] JNull)) defaultRetryConfig 2 (responseError 503 [])
        = Fin 4200
   \<and> calculateRetryDelay (1 / 2) 2 1000 10000 = 4200
   \<and> calculateRetryDelay (1 / 2) 2 1000 10000 \<le> 10000"
proof -
  have h1: "statusOf (responseError 503 []) \<noteq> Some 429"
    by (simp add: statusOf_def responseError_def)
  have h2: "0 \<le> random (staticEnv (respondWith 200 [] JNull)) 2"
    and h3: "random (staticEnv (respondWith 200 [] JNull)) 2 < 1"
    by (simp_all add: staticEnv_def)
  have h4: "0 \<le> retryDelay defaultRetryConfig" by (simp add: defaultRetryConfig_def)
  from C3_backoff_delay_bounded [OF h1 h2 h3 h4] h1 h2 h3 h4
  show ?thesis by (simp add: staticEnv_def defaultRetryConfig_def)
qed

section \<open>Credentials\<close>

lemma staticToken_bearer:
  "apiKey env = Some (''Bearer '' @ token) \<Longrightarrow> staticToken env = Some token"
  by (simp add: staticToken_def startsWith_def)

text \<open>
  Claim C7. When a personal access token is configured (the api key is \<^verbatim>\<open>Bearer \<close> followed by
  the token), \<^verbatim>\<open>authenticate\<close> takes the static-token path whatever the client id and the
  client secret are: the token after the prefix is stored unchanged, the expiry is 24 hours
  from now, and the world is otherwise untouched, so the token endpoint is not called.
  \<^verbatim>\<open>ensureAuthenticated\<close> therefore always succeeds.
\<close>

theorem C7_static_token_wins:
  assumes "apiKey env = Some (''Bearer '' @ token)"
  shows "authenticate env w
           = (Inr (), w\<lparr>accessToken := Some token, tokenExpiresAt := now env + 86400000\<rparr>)
    \<and> authenticate (env\<lparr>clientId := cid, clientSecret := cs\<rparr>) w = authenticate env w
    \<and> events (snd (authenticate env w)) = events w
    \<and> tokenExchanges (snd (authenticate env w)) = tokenExchanges w
    \<and> ensureAuthenticated env w
           = (Inr (), if tokenValid env w then w
                      else w\<lparr>accessToken := Some token, tokenExpiresAt := now env + 86400000\<rparr>)"
proof -
  have st: "staticToken env = Some token" by (rule staticToken_bearer [OF assms])
  have st': "staticToken (env\<lparr>clientId := cid, clientSecret := cs\<rparr>) = Some token"
    by (rule staticToken_bearer) (simp add: assms)
  have a: "authenticate env w
           = (Inr (), w\<lparr>accessToken := Some token, tokenExpiresAt := now env + 86400000\<rparr>)"
    by (simp add: authenticate_def st)
  have b: "authenticate (env\<lparr>clientId := cid, clientSecret := cs\<rparr>) w = authenticate env w"
    by (simp add: authenticate_def st st')
  show ?thesis using a b by (simp add: ensureAuthenticated_def tokenExchanges_def)
qed

theorem C7_static_token_wins_witness:
  "apiKey (staticEnv (respondWith 200 [] JNull)) = Some (''Bearer '' @ ''pat-123'')
   \<and> truthyStr (clientId (staticEnv (respondWith 200 [] JNull)))
   \<and> truthyStr (clientSecret (staticEnv (respondWith 200 [] JNull)))
   \<and> authenticate (staticEnv (respondWith 200 [] JNull)) freshWorld
       = (Inr (), freshWorld\<lparr>accessToken := Some ''pat-123'', tokenExpiresAt := 86401000\<rparr>)
   \<and> tokenExchanges (snd (authenticate (staticEnv (respondWith 200 [] JNull)) freshWorld)) = 0"
proof -
  have h: "apiKey (staticEnv (respondWith 200 [] JNull)) = Some (''Bearer '' @ ''pat-123'')"
    by (simp add: staticEnv_def)
  from C7_static_token_wins [OF h, of freshWorld None None] h
  show ?thesis
    by (simp add: staticEnv_def freshWorld_def newClient_def tokenExchanges_def Let_def)
qed

section \<open>Cache lookups of the read verb\<close>

lemma ensureAuthenticated_reaches_endpoint:
  "canAuthenticate env w \<Longrightarrow> ensureAuthenticated env w = (Inl e, wa) \<Longrightarrow>
   events wa = events w @ [TokenExchange]"
  by (auto simp: ensureAuthenticated_def authenticate_def canAuthenticate_def emit_def
      split: if_splits option.splits prod.splits)

lemma clientRequest_network:
  assumes can: "canAuthenticate env w"
    and run: "clientRequest env v endpoint ps body w = (res, w1)"
  shows "networkCalls w + tokenExchanges w < networkCalls w1 + tokenExchanges w1"
proof -
  let ?w0 = "emit (HttpRequest v endpoint) w"
  obtain a wa where auth: "ensureAuthenticated env ?w0 = (a, wa)"
    by (cases "ensureAuthenticated env ?w0")
  have can0: "canAuthenticate env ?w0"
    using can by (simp add: canAuthenticate_def tokenValid_def emit_def)
  have ev0: "events ?w0 = events w @ [HttpRequest v endpoint]" by (simp add: emit_def)
  show ?thesis
  proof (cases a)
    case (Inl error)
    from ensureAuthenticated_reaches_endpoint [OF can0 auth [unfolded Inl]] ev0
    have eva: "events wa = events w @ [HttpRequest v endpoint, TokenExchange]" by simp
    have "onRejected error wa = (res, w1)"
      using run auth Inl by (simp add: clientRequest_def)
    from onRejected_effect [OF this] eva show ?thesis
      by (simp add: measure_defs)
  next
    case (Inr u)
    let ?req = "\<lparr>req_verb = v, req_url = endpoint, req_params = ps, req_body = body,
                      req_authorization = authorizationHeader (accessToken wa)\<rparr>"
    obtain d wd where disp: "dispatch env ?req wa = (d, wd)"
      by (cases "dispatch env ?req wa")
    from ensureAuthenticated_events [of env ?w0] auth ev0
    have eva: "events wa = events w @ [HttpRequest v endpoint]
               \<or> events wa = events w @ [HttpRequest v endpoint, TokenExchange]" by auto
    from dispatch_effect [OF disp]
    have evd: "events wd = events wa @ [NetworkCall ?req]" by simp
    show ?thesis
    proof (cases d)
      case ok: (Inr response)
      then have "w1 = wd"
        using run auth Inr disp by (simp add: clientRequest_def Let_def)
      with evd eva show ?thesis by (auto simp: measure_defs)
    next
      case fail: (Inl error)
      then have "onRejected error wd = (res, w1)"
        using run auth Inr disp by (simp add: clientRequest_def Let_def)
      from onRejected_effect [OF this] evd eva show ?thesis
        by (auto simp: measure_defs)
    qed
  qed
qed

lemma executeWithRetry_network:
  assumes can: "canAuthenticate env w" and nonneg: "0 \<le> retries cfg"
    and run: "executeWithRetry env cfg (clientRequest env v endpoint ps body) w = (res, k, w')"
  shows "networkCalls w + tokenExchanges w < networkCalls w' + tokenExchanges w'"
proof -
  let ?op = "clientRequest env v endpoint ps body"
  obtain r w1 where first: "?op w = (r, w1)" by (cases "?op w")
  have step: "networkCalls w + tokenExchanges w < networkCalls w1 + tokenExchanges w1"
    by (rule clientRequest_network [OF can first])
  have loop: "retryLoop env cfg ?op 0 None w = (res, k, w')"
    using run by (simp add: executeWithRetry_def)
  have in0: "int 0 \<le> retries cfg" using nonneg by simp
  show ?thesis
  proof (cases r)
    case (Inr response)
    with retryLoop_success [OF in0, of ?op w response w1 env None] first loop step
    show ?thesis by simp
  next
    case (Inl error)
    show ?thesis
    proof (cases "int 0 = retries cfg \<or> \<not> shouldRetry cfg error")
      case True
      then have "retryLoop env cfg ?op 0 None w = (Inl error, 1, w1)"
        using first Inl in0 by (auto simp: retryLoop_last retryLoop_rejected)
      with loop step show ?thesis by simp
    next
      case False
      then have lt: "int 0 < retries cfg" and sr: "shouldRetry cfg error"
        using nonneg by auto
      let ?ws = "sleep (retryWait env cfg 0 error) w1"
      obtain r2 k2 w2 where rec: "retryLoop env cfg ?op (Suc 0) (Some error) ?ws = (r2, k2, w2)"
        by (cases "retryLoop env cfg ?op (Suc 0) (Some error) ?ws")
      from retryLoop_retry [OF lt _ sr rec, of w None] first Inl loop
      have "w' = w2" by simp
      moreover from retryLoop_clientRequest [OF rec]
      have "networkCalls ?ws \<le> networkCalls w2" "tokenExchanges ?ws \<le> tokenExchanges w2"
        by simp_all
      ultimately show ?thesis using step by (simp add: sleep_measures)
    qed
  qed
qed

lemma cache_measures:
  "httpRequests (snd (cacheGet key ps w)) = httpRequests w"
  "networkCalls (snd (cacheGet key ps w)) = networkCalls w"
  "tokenExchanges (snd (cacheGet key ps w)) = tokenExchanges w"
  "httpRequests (cacheSet key ps val ttl w) = httpRequests w"
  "networkCalls (cacheSet key ps val ttl w) = networkCalls w"
  "tokenExchanges (cacheSet key ps val ttl w) = tokenExchanges w"
  by (simp_all add: cacheGet_def cacheSet_def emit_def measure_defs)

lemma canAuthenticate_cacheGet:
  "canAuthenticate env (snd (cacheGet key ps w)) = canAuthenticate env w"
  by (simp add: canAuthenticate_def tokenValid_def cacheGet_def emit_def)

lemma get_hit:
  "truthy (fst (cacheGet (''GET:'' @ endpoint) ps w)) \<Longrightarrow>
   get env endpoint ps ttl w
     = (Inr (fst (cacheGet (''GET:'' @ endpoint) ps w)), snd (cacheGet (''GET:'' @ endpoint) ps w))"
  by (cases "cacheGet (''GET:'' @ endpoint) ps w") (simp add: get_def Let_def)

lemma get_miss:
  "\<not> truthy (fst (cacheGet (''GET:'' @ endpoint) ps w)) \<Longrightarrow>
   executeWithRetry env defaultRetryConfig (clientRequest env GET endpoint ps JUndefined)
     (snd (cacheGet (''GET:'' @ endpoint) ps w)) = (res, k, w2) \<Longrightarrow>
   get env endpoint ps ttl w
     = (case res of
          Inl error \<Rightarrow> (Inl error, w2)
        | Inr response \<Rightarrow>
            (Inr (data response),
             cacheSet (''GET:'' @ endpoint) ps (data response) (chooseTtl ttl endpoint) w2))"
  by (cases "cacheGet (''GET:'' @ endpoint) ps w"; cases res) (simp_all add: get_def Let_def)

lemma default_retries: "0 \<le> retries defaultRetryConfig" "nat (retries defaultRetryConfig + 1) = 4"
  by (simp_all add: defaultRetryConfig_def)

lemma get_miss_effect:
  assumes miss: "\<not> truthy (fst (cacheGet (''GET:'' @ endpoint) ps w))"
  shows "Suc (httpRequests w) \<le> httpRequests (snd (get env endpoint ps ttl w))"
    and "canAuthenticate env w \<Longrightarrow>
         networkCalls w + tokenExchanges w
           < networkCalls (snd (get env endpoint ps ttl w))
             + tokenExchanges (snd (get env endpoint ps ttl w))"
    and "fst (get env endpoint ps ttl w) = Inr v \<Longrightarrow>
         networkCalls w < networkCalls (snd (get env endpoint ps ttl w))"
proof -
  let ?w1 = "snd (cacheGet (''GET:'' @ endpoint) ps w)"
  obtain res k w2 where run:
    "executeWithRetry env defaultRetryConfig (clientRequest env GET endpoint ps JUndefined) ?w1
       = (res, k, w2)"
    by (cases "executeWithRetry env defaultRetryConfig (clientRequest env GET endpoint ps JUndefined) ?w1")
  note g = get_miss [OF miss run, of ttl]
  note e = executeWithRetry_clientRequest [OF run]
  show "Suc (httpRequests w) \<le> httpRequests (snd (get env endpoint ps ttl w))"
    using g e default_retries(1) by (cases res) (simp_all add: cache_measures)
  show "networkCalls w < networkCalls (snd (get env endpoint ps ttl w))"
    if "fst (get env endpoint ps ttl w) = Inr v"
    using that g e default_retries(1) by (cases res) (simp_all add: cache_measures)
  show "networkCalls w + tokenExchanges w
           < networkCalls (snd (get env endpoint ps ttl w))
             + tokenExchanges (snd (get env endpoint ps ttl w))"
    if can: "canAuthenticate env w"
  proof -
    have "canAuthenticate env ?w1" using can by (simp add: canAuthenticate_cacheGet)
    from executeWithRetry_network [OF this default_retries(1) run] g
    show ?thesis by (cases res) (simp_all add: cache_measures)
  qed
qed

text \<open>
  Claim C10. When the value the cache returns for the key of a \<^verbatim>\<open>get\<close> call is falsy (the
  empty string, 0, \<^verbatim>\<open>false\<close>, \<^verbatim>\<open>null\<close>, or \<^verbatim>\<open>undefined\<close> for an absent entry), \<^verbatim>\<open>get\<close> does not
  return it: the request is issued through the retry executor at least once, and it reaches
  the network (the upstream service or the token endpoint) whenever the request interceptor
  can authenticate. Conversely a \<^verbatim>\<open>get\<close> that returns a value without any network call
  returns the cached value, which is truthy, and issues no request.
\<close>

theorem C10_falsy_cached_value_is_a_miss:
  "(\<not> truthy (fst (cacheGet (''GET:'' @ endpoint) ps w)) \<longrightarrow>
      Suc (httpRequests w) \<le> httpRequests (snd (get env endpoint ps ttl w))
      \<and> (canAuthenticate env w \<longrightarrow>
           networkCalls w + tokenExchanges w
             < networkCalls (snd (get env endpoint ps ttl w))
               + tokenExchanges (snd (get env endpoint ps ttl w))))
   \<and> (fst (get env endpoint ps ttl w) = Inr v
        \<and> networkCalls (snd (get env endpoint ps ttl w)) = networkCalls w \<longrightarrow>
      truthy v \<and> cacheStore w (''GET:'' @ endpoint, ps) = Some v
      \<and> httpRequests (snd (get env endpoint ps ttl w)) = httpRequests w)
   \<and> \<not> truthy (JStr []) \<and> \<not> truthy (JNum (Fin 0)) \<and> \<not> truthy (JBool False)
   \<and> \<not> truthy JNull \<and> \<not> truthy JUndefined"
proof -
  have hit: "truthy v \<and> cacheStore w (''GET:'' @ endpoint, ps) = Some v
      \<and> httpRequests (snd (get env endpoint ps ttl w)) = httpRequests w"
    if r: "fst (get env endpoint ps ttl w) = Inr v"
      and n: "networkCalls (snd (get env endpoint ps ttl w)) = networkCalls w"
  proof (cases "truthy (fst (cacheGet (''GET:'' @ endpoint) ps w))")
    case True
    from get_hit [OF True, of env ttl] r
    have v: "v = fst (cacheGet (''GET:'' @ endpoint) ps w)" by simp
    with True have tv: "truthy v" by simp
    have "cacheStore w (''GET:'' @ endpoint, ps) = Some v"
      using v tv by (cases "cacheStore w (''GET:'' @ endpoint, ps)") (simp_all add: cacheGet_def)
    with tv get_hit [OF True, of env ttl] show ?thesis by (simp add: cache_measures)
  next
    case False
    from get_miss_effect(3) [OF False r] n show ?thesis by simp
  qed
  show ?thesis using get_miss_effect(1,2) [of endpoint ps w env ttl] hit by simp
qed

theorem C10_falsy_cached_value_is_a_miss_witness:
  "\<not> truthy (fst (cacheGet (''GET:'' @ ''/mailboxes'') None (cachedWorld (JStr []))))
   \<and> canAuthenticate (staticEnv (respondWith 200 [] (JStr ''fresh''))) (cachedWorld (JStr []))
   \<and> Suc (httpRequests (cachedWorld (JStr [])))
        \<le> httpRequests (snd (get (staticEnv (respondWith 200 [] (JStr ''fresh'')))
                               ''/mailboxes'' None None (cachedWorld (JStr []))))
   \<and> networkCalls (cachedWorld (JStr [])) + tokenExchanges (cachedWorld (JStr []))
        < networkCalls (snd (get (staticEnv (respondWith 200 [] (JStr ''fresh'')))
                               ''/mailboxes'' None None (cachedWorld (JStr []))))
          + tokenExchanges (snd (get (staticEnv (respondWith 200 [] (JStr ''fresh'')))
                               ''/mailboxes'' None None (cachedWorld (JStr []))))
   \<and> fst (get (staticEnv (respondWith 200 [] (JStr ''fresh''))) ''/mailboxes'' None None
            (cachedWorld (JStr ''hit''))) = Inr (JStr ''hit'')
   \<and> networkCalls (snd (get (staticEnv (respondWith 200 [] (JStr ''fresh''))) ''/mailboxes''
            None None (cachedWorld (JStr ''hit'')))) = networkCalls (cachedWorld (JStr ''hit''))
   \<and> truthy (JStr ''hit'')
   \<and> cacheStore (cachedWorld (JStr ''hit'')) (''GET:'' @ ''/mailboxes'', None) = Some (JStr ''hit'')"
proof -
  let ?env = "staticEnv (respondWith 200 [] (JStr ''fresh''))"
  have miss: "\<not> truthy (fst (cacheGet (''GET:'' @ ''/mailboxes'') None (cachedWorld (JStr []))))"
    by (simp add: cacheGet_def cachedWorld_def newClient_def Let_def)
  have can: "canAuthenticate ?env (cachedWorld (JStr []))"
    by (simp add: canAuthenticate_def staticToken_def staticEnv_def startsWith_def)
  have hit: "truthy (fst (cacheGet (''GET:'' @ ''/mailboxes'') None (cachedWorld (JStr ''hit''))))"
    by (simp add: cacheGet_def cachedWorld_def newClient_def Let_def)
  have r: "fst (get ?env ''/mailboxes'' None None (cachedWorld (JStr ''hit''))) = Inr (JStr ''hit'')"
    using get_hit [OF hit, of ?env None]
    by (simp add: cacheGet_def cachedWorld_def newClient_def Let_def)
  have n: "networkCalls (snd (get ?env ''/mailboxes'' None None (cachedWorld (JStr ''hit''))))
             = networkCalls (cachedWorld (JStr ''hit''))"
    using get_hit [OF hit, of ?env None] by (simp add: cache_measures)
  from C10_falsy_cached_value_is_a_miss [of "''/mailboxes''" None "cachedWorld (JStr [])" ?env None
      "JStr ''x''"] miss can
  have a: "Suc (httpRequests (cachedWorld (JStr [])))
        \<le> httpRequests (snd (get ?env ''/mailboxes'' None None (cachedWorld (JStr []))))"
    and b: "networkCalls (cachedWorld (JStr [])) + tokenExchanges (cachedWorld (JStr []))
        < networkCalls (snd (get ?env ''/mailboxes'' None None (cachedWorld (JStr []))))
          + tokenExchanges (snd (get ?env ''/mailboxes'' None None (cachedWorld (JStr []))))"
    by blast+
  from C10_falsy_cached_value_is_a_miss [of "''/mailboxes''" None "cachedWorld (JStr ''hit'')" ?env None
      "JStr ''hit''"] r n
  have c: "truthy (JStr ''hit'')
      \<and> cacheStore (cachedWorld (JStr ''hit'')) (''GET:'' @ ''/mailboxes'', None) = Some (JStr ''hit'')"
    by blast
  show ?thesis using miss can a b r n c by blast
qed

section \<open>Cache bypass of the mutating verbs\<close>

lemma cache_touches:
  "cacheTouches (snd (cacheGet key ps w)) = cacheTouches w @ [CacheGet key ps]"
  "cacheTouches (cacheSet key ps val ttl w) = cacheTouches w @ [CacheSet key ps val ttl]"
  by (simp_all add: cacheGet_def cacheSet_def emit_def cacheTouches_def)

lemma get_reads_cache:
  "CacheGet (''GET:'' @ endpoint) ps \<in> set (cacheTouches (snd (get env endpoint ps ttl w)))"
proof (cases "truthy (fst (cacheGet (''GET:'' @ endpoint) ps w))")
  case True
  from get_hit [OF True, of env ttl] show ?thesis by (simp add: cache_touches)
next
  case False
  let ?w1 = "snd (cacheGet (''GET:'' @ endpoint) ps w)"
  obtain res k w2 where run:
    "executeWithRetry env defaultRetryConfig (clientRequest env GET endpoint ps JUndefined) ?w1
       = (res, k, w2)"
    by (cases "executeWithRetry env defaultRetryConfig (clientRequest env GET endpoint ps JUndefined) ?w1")
  from executeWithRetry_clientRequest [OF run]
  have "cacheTouches w2 = cacheTouches w @ [CacheGet (''GET:'' @ endpoint) ps]"
    by (simp add: cache_touches)
  with get_miss [OF False run, of ttl] show ?thesis
    by (cases res) (simp_all add: cache_touches)
qed

text \<open>
  Claim C8. \<^verbatim>\<open>post\<close>, \<^verbatim>\<open>put\<close> and \<^verbatim>\<open>patch\<close> perform no cache read and no cache write: the
  cache events of the trace and the contents of the cache store are the same after the call
  as before, for every configuration, upstream behaviour and starting state. The read verb
  is the one that touches the cache: every \<^verbatim>\<open>get\<close> records a cache read.
\<close>

theorem C8_mutating_verbs_never_touch_cache:
  "cacheTouches (snd (post env endpoint body w)) = cacheTouches w
   \<and> cacheStore (snd (post env endpoint body w)) = cacheStore w
   \<and> cacheTouches (snd (put env endpoint body w)) = cacheTouches w
   \<and> cacheStore (snd (put env endpoint body w)) = cacheStore w
   \<and> cacheTouches (snd (patch env endpoint body w)) = cacheTouches w
   \<and> cacheStore (snd (patch env endpoint body w)) = cacheStore w
   \<and> CacheGet (''GET:'' @ endpoint) ps \<in> set (cacheTouches (snd (get env endpoint ps ttl w)))"
  using post_cache [of env endpoint body w] put_cache [of env endpoint body w]
    patch_cache [of env endpoint body w] get_reads_cache [of endpoint ps env ttl w] by simp

section \<open>Normalization, client errors and the pool\<close>

lemmas run_defs = get_def post_def put_def patch_def executeWithRetry_def retryLoop.simps
  clientRequest_def ensureAuthenticated_def authenticate_def staticToken_def tokenValid_def
  dispatch_def settle_def onRejected_def transformError_def classify_def mkApiError_def
  validateStatus_def emit_def cacheGet_def cacheSet_def chooseTtl_def getDefaultCacheTtl_def
  defaultRetryConfig_def defaultRetryCondition_def shouldRetry_def retryWait_def sleep_def
  calculateRetryDelay_def rateLimitDelay_def retryAfterHeader_def statusOf_def
  authorizationHeader_def startsWith_def authFailed_def plainError_def Let_def

lemmas scenario_defs = staticEnv_def oauthEnv_def respondWith_def freshWorld_def newClient_def
  newAgent_def mergePoolConfig_def DEFAULT_POOL_CONFIG_def noPoolOptions_def upstreamError_def

text \<open>A response with a status below 500 resolves.\<close>

lemma settle_below_500:
  "status r < 500 \<Longrightarrow> settle req (Response r) = Inr r"
  by (simp add: settle_def validateStatus_def)

text \<open>
  With a valid token, a request that the upstream answers with a status below 500 resolves
  at the first attempt: the executor returns the response, and neither the rejection handler
  nor the retry logic runs.
\<close>

lemma clientRequest_resolves_below_500:
  assumes valid: "tokenValid env w"
    and answer: "upstream env (networkCalls w)
                   \<lparr>req_verb = v, req_url = endpoint, req_params = ps, req_body = body,
                    req_authorization = authorizationHeader (accessToken w)\<rparr> = Response r"
    and below: "status r < 500"
  shows "clientRequest env v endpoint ps body w
    = (Inr r,
       emit (NetworkCall \<lparr>req_verb = v, req_url = endpoint, req_params = ps, req_body = body,
                           req_authorization = authorizationHeader (accessToken w)\<rparr>)
         (emit (HttpRequest v endpoint) w))"
proof -
  let ?w0 = "emit (HttpRequest v endpoint) w"
  have auth: "ensureAuthenticated env ?w0 = (Inr (), ?w0)"
    using valid by (simp add: ensureAuthenticated_def tokenValid_def emit_def)
  have n: "networkCalls ?w0 = networkCalls w" and t: "accessToken ?w0 = accessToken w"
    by (simp_all add: emit_def networkCalls_def)
  show ?thesis
    using auth answer settle_below_500 [OF below]
    by (simp add: clientRequest_def dispatch_def n t Let_def)
qed

lemma executeWithRetry_resolves_below_500:
  assumes valid: "tokenValid env w"
    and answer: "upstream env (networkCalls w)
                   \<lparr>req_verb = v, req_url = endpoint, req_params = ps, req_body = body,
                    req_authorization = authorizationHeader (accessToken w)\<rparr> = Response r"
    and below: "status r < 500"
    and nonneg: "0 \<le> retries cfg"
  shows "executeWithRetry env cfg (clientRequest env v endpoint ps body) w
    = (Inr r, 1,
       emit (NetworkCall \<lparr>req_verb = v, req_url = endpoint, req_params = ps, req_body = body,
                           req_authorization = authorizationHeader (accessToken w)\<rparr>)
         (emit (HttpRequest v endpoint) w))"
  unfolding executeWithRetry_def
  using nonneg
  by (intro retryLoop_success clientRequest_resolves_below_500 [OF valid answer below]) simp

text \<open>The default predicate accepts every normalized error: it has no response field.\<close>

lemma defaultRetryCondition_normalized: "defaultRetryCondition (Normalized a)"
  by (simp add: defaultRetryCondition_def)

lemma executeWithRetry_failure:
  assumes "failure (fst (executeWithRetry env defaultRetryConfig
                          (clientRequest env v endpoint ps body) w)) = Some error"
  shows "isNormalized error
    \<and> transformCount (snd (snd (executeWithRetry env defaultRetryConfig
                                   (clientRequest env v endpoint ps body) w)))
        = transformCount w
          + fst (snd (executeWithRetry env defaultRetryConfig
                        (clientRequest env v endpoint ps body) w))
    \<and> 1 \<le> fst (snd (executeWithRetry env defaultRetryConfig
                        (clientRequest env v endpoint ps body) w))
    \<and> fst (snd (executeWithRetry env defaultRetryConfig
                        (clientRequest env v endpoint ps body) w)) \<le> 4"
proof -
  obtain res k w' where run:
    "executeWithRetry env defaultRetryConfig (clientRequest env v endpoint ps body) w = (res, k, w')"
    by (cases "executeWithRetry env defaultRetryConfig (clientRequest env v endpoint ps body) w")
  from assms run obtain res: "res = Inl error" by (cases res) simp_all
  have "k \<le> 4"
    using retryLoop_attempts_le [of env defaultRetryConfig "clientRequest env v endpoint ps body" 0 None w]
      run by (simp add: executeWithRetry_def default_retries)
  with executeWithRetry_clientRequest [OF run] res run default_retries(1)
  show ?thesis by simp
qed

lemma get_failure:
  "failure (fst (get env endpoint ps ttl w)) = Some error \<Longrightarrow> isNormalized error"
proof (cases "truthy (fst (cacheGet (''GET:'' @ endpoint) ps w))")
  case True
  assume "failure (fst (get env endpoint ps ttl w)) = Some error"
  with get_hit [OF True, of env ttl] show ?thesis by simp
next
  case False
  assume f: "failure (fst (get env endpoint ps ttl w)) = Some error"
  let ?w1 = "snd (cacheGet (''GET:'' @ endpoint) ps w)"
  obtain res k w2 where run:
    "executeWithRetry env defaultRetryConfig (clientRequest env GET endpoint ps JUndefined) ?w1
       = (res, k, w2)"
    by (cases "executeWithRetry env defaultRetryConfig (clientRequest env GET endpoint ps JUndefined) ?w1")
  from get_miss [OF False run, of ttl] f have "failure res = Some error"
    by (cases res) simp_all
  with executeWithRetry_failure [of env GET endpoint ps JUndefined ?w1 error] run
  show ?thesis by simp
qed

lemma post_failure:
  "failure (fst (post env endpoint body w)) = Some error \<Longrightarrow> isNormalized error"
proof -
  assume f: "failure (fst (post env endpoint body w)) = Some error"
  obtain res k w' where run:
    "executeWithRetry env defaultRetryConfig (clientRequest env POST endpoint None body) w = (res, k, w')"
    by (cases "executeWithRetry env defaultRetryConfig (clientRequest env POST endpoint None body) w")
  from post_world [OF run] f executeWithRetry_failure [of env POST endpoint None body w error] run
  show ?thesis by simp
qed

lemma put_failure:
  "failure (fst (put env endpoint body w)) = Some error \<Longrightarrow> isNormalized error"
proof -
  assume f: "failure (fst (put env endpoint body w)) = Some error"
  obtain res k w' where run:
    "executeWithRetry env defaultRetryConfig (clientRequest env PUT endpoint None body) w = (res, k, w')"
    by (cases "executeWithRetry env defaultRetryConfig (clientRequest env PUT endpoint None body) w")
  from put_world [OF run] f executeWithRetry_failure [of env PUT endpoint None body w error] run
  show ?thesis by simp
qed

lemma patch_failure:
  "failure (fst (patch env endpoint body w)) = Some error \<Longrightarrow> isNormalized error"
proof -
  assume f: "failure (fst (patch env endpoint body w)) = Some error"
  obtain res k w' where run:
    "executeWithRetry env defaultRetryConfig (clientRequest env PATCH endpoint None body) w = (res, k, w')"
    by (cases "executeWithRetry env defaultRetryConfig (clientRequest env PATCH endpoint None body) w")
  from patch_world [OF run] f executeWithRetry_failure [of env PATCH endpoint None body w error] run
  show ?thesis by simp
qed

text \<open>
  Claim C4, as amended. \<^verbatim>\<open>transformError\<close> runs in the rejection handler of the response
  interceptor, so it runs once for every failed attempt: a call that ends in failure after
  \<open>k\<close> attempts (between 1 and 4 with the default policy) has run it \<open>k\<close> times. The error
  the caller of \<^verbatim>\<open>get\<close>, \<^verbatim>\<open>post\<close>, \<^verbatim>\<open>put\<close> or \<^verbatim>\<open>patch\<close> receives is always a normalized one.
\<close>

theorem C4_normalization_runs_at_every_failed_attempt:
  "(failure (fst (executeWithRetry env defaultRetryConfig
                    (clientRequest env v endpoint ps body) w)) = Some error \<longrightarrow>
      isNormalized error
      \<and> transformCount (snd (snd (executeWithRetry env defaultRetryConfig
                                     (clientRequest env v endpoint ps body) w)))
          = transformCount w
            + fst (snd (executeWithRetry env defaultRetryConfig
                          (clientRequest env v endpoint ps body) w))
      \<and> 1 \<le> fst (snd (executeWithRetry env defaultRetryConfig
                          (clientRequest env v endpoint ps body) w))
      \<and> fst (snd (executeWithRetry env defaultRetryConfig
                          (clientRequest env v endpoint ps body) w)) \<le> 4)
   \<and> (failure (fst (get env endpoint ps ttl w)) = Some error \<longrightarrow> isNormalized error)
   \<and> (failure (fst (post env endpoint body w)) = Some error \<longrightarrow> isNormalized error)
   \<and> (failure (fst (put env endpoint body w)) = Some error \<longrightarrow> isNormalized error)
   \<and> (failure (fst (patch env endpoint body w)) = Some error \<longrightarrow> isNormalized error)"
  using executeWithRetry_failure [of env v endpoint ps body w error]
    get_failure [of env endpoint ps ttl w error] post_failure [of env endpoint body w error]
    put_failure [of env endpoint body w error] patch_failure [of env endpoint body w error]
  by blast

theorem C4_normalization_runs_at_every_failed_attempt_witness:
  "failure (fst (executeWithRetry (staticEnv (respondWith 500 [] (JStr ''boom''))) defaultRetryConfig
       (clientRequest (staticEnv (respondWith 500 [] (JStr ''boom''))) GET ''/conversations'' None
          JUndefined) freshWorld))
     = Some (upstreamError ''/conversations'' ''GET'')
   \<and> failure (fst (get (staticEnv (respondWith 500 [] (JStr ''boom''))) ''/conversations'' None
                      None freshWorld))
     = Some (upstreamError ''/conversations'' ''GET'')
   \<and> failure (fst (post (staticEnv (respondWith 500 [] (JStr ''boom''))) ''/conversations'' JNull
                      freshWorld))
     = Some (upstreamError ''/conversations'' ''POST'')
   \<and> failure (fst (put (staticEnv (respondWith 500 [] (JStr ''boom''))) ''/conversations'' JNull
                      freshWorld))
     = Some (upstreamError ''/conversations'' ''PUT'')
   \<and> failure (fst (patch (staticEnv (respondWith 500 [] (JStr ''boom''))) ''/conversations'' JNull
                      freshWorld))
     = Some (upstreamError ''/conversations'' ''PATCH'')
   \<and> isNormalized (upstreamError ''/conversations'' ''GET'')
   \<and> isNormalized (upstreamError ''/conversations'' ''POST'')
   \<and> isNormalized (upstreamError ''/conversations'' ''PUT'')
   \<and> isNormalized (upstreamError ''/conversations'' ''PATCH'')
   \<and> transformCount (snd (snd (executeWithRetry (staticEnv (respondWith 500 [] (JStr ''boom'')))
        defaultRetryConfig
        (clientRequest (staticEnv (respondWith 500 [] (JStr ''boom''))) GET ''/conversations'' None
           JUndefined) freshWorld)))
       = transformCount freshWorld
         + fst (snd (executeWithRetry (staticEnv (respondWith 500 [] (JStr ''boom'')))
             defaultRetryConfig
             (clientRequest (staticEnv (respondWith 500 [] (JStr ''boom''))) GET ''/conversations''
                None JUndefined) freshWorld))"
proof -
  let ?env = "staticEnv (respondWith 500 [] (JStr ''boom''))"
  have h1: "failure (fst (executeWithRetry ?env defaultRetryConfig
       (clientRequest ?env GET ''/conversations'' None JUndefined) freshWorld))
     = Some (upstreamError ''/conversations'' ''GET'')"
    by (simp add: run_defs scenario_defs networkCalls_def)
  have h2: "failure (fst (get ?env ''/conversations'' None None freshWorld))
     = Some (upstreamError ''/conversations'' ''GET'')"
    by (simp add: run_defs scenario_defs networkCalls_def)
  have h3: "failure (fst (post ?env ''/conversations'' JNull freshWorld))
     = Some (upstreamError ''/conversations'' ''POST'')"
    by (simp add: run_defs scenario_defs networkCalls_def)
  have h4: "failure (fst (put ?env ''/conversations'' JNull freshWorld))
     = Some (upstreamError ''/conversations'' ''PUT'')"
    by (simp add: run_defs scenario_defs networkCalls_def)
  have h5: "failure (fst (patch ?env ''/conversations'' JNull freshWorld))
     = Some (upstreamError ''/conversations'' ''PATCH'')"
    by (simp add: run_defs scenario_defs networkCalls_def)
  from C4_normalization_runs_at_every_failed_attempt [where env = ?env and v = GET
      and endpoint = "''/conversations''" and ps = None and body = JUndefined and w = freshWorld
      and error = "upstreamError ''/conversations'' ''GET''" and ttl = None] h1 h2
  have c1: "isNormalized (upstreamError ''/conversations'' ''GET'')
    \<and> transformCount (snd (snd (executeWithRetry ?env defaultRetryConfig
          (clientRequest ?env GET ''/conversations'' None JUndefined) freshWorld)))
       = transformCount freshWorld
         + fst (snd (executeWithRetry ?env defaultRetryConfig
             (clientRequest ?env GET ''/conversations'' None JUndefined) freshWorld))"
    by blast
  from C4_normalization_runs_at_every_failed_attempt [where env = ?env
      and endpoint = "''/conversations''" and body = JNull and w = freshWorld
      and error = "upstreamError ''/conversations'' ''POST''"] h3
  have c3: "isNormalized (upstreamError ''/conversations'' ''POST'')" by blast
  from C4_normalization_runs_at_every_failed_attempt [where env = ?env
      and endpoint = "''/conversations''" and body = JNull and w = freshWorld
      and error = "upstreamError ''/conversations'' ''PUT''"] h4
  have c4: "isNormalized (upstreamError ''/conversations'' ''PUT'')" by blast
  from C4_normalization_runs_at_every_failed_attempt [where env = ?env
      and endpoint = "''/conversations''" and body = JNull and w = freshWorld
      and error = "upstreamError ''/conversations'' ''PATCH''"] h5
  have c5: "isNormalized (upstreamError ''/conversations'' ''PATCH'')" by blast
  show ?thesis using h1 h2 h3 h4 h5 c1 c3 c4 c5 by blast
qed

text \<open>
  Claim C4 as stated says that the normalization runs exactly once per terminal failure
  and never per attempt. Against an upstream service that always answers 500, one \<^verbatim>\<open>get\<close>
  makes four network calls and runs \<^verbatim>\<open>transformError\<close> four times.
\<close>

theorem C4_counterexample_four_normalizations:
  "failure (fst (get (staticEnv (respondWith 500 [] (JStr ''boom''))) ''/conversations'' None None
                   freshWorld))
     = Some (upstreamError ''/conversations'' ''GET'')
   \<and> networkCalls (snd (get (staticEnv (respondWith 500 [] (JStr ''boom''))) ''/conversations''
                            None None freshWorld)) = 4
   \<and> transformCount (snd (get (staticEnv (respondWith 500 [] (JStr ''boom''))) ''/conversations''
                            None None freshWorld)) = 4"
  by (simp add: run_defs scenario_defs networkCalls_def transformCount_def)


text \<open>
  Claim C2 says that a 429 answer with \<^verbatim>\<open>Retry-After: 5\<close> makes the executor wait and try
  again. In the client a 429 passes \<^verbatim>\<open>validateStatus\<close>, so the request resolves: \<^verbatim>\<open>get\<close>
  returns the body of the 429 response after one network call, without any wait and
  without normalization. The rate-limit branch of the executor is never entered.
\<close>

theorem C2_rate_limit_response_is_returned_without_wait:
  "fst (get (staticEnv (respondWith 429 [(''retry-after'', ''5'')] (JStr ''slow down'')))
          ''/conversations'' None None freshWorld) = Inr (JStr ''slow down'')
   \<and> sleeps (snd (get (staticEnv (respondWith 429 [(''retry-after'', ''5'')] (JStr ''slow down'')))
                     ''/conversations'' None None freshWorld)) = []
   \<and> networkCalls (snd (get (staticEnv (respondWith 429 [(''retry-after'', ''5'')]
                                          (JStr ''slow down'')))
                           ''/conversations'' None None freshWorld)) = 1
   \<and> transformCount (snd (get (staticEnv (respondWith 429 [(''retry-after'', ''5'')]
                                          (JStr ''slow down'')))
                           ''/conversations'' None None freshWorld)) = 0"
  by (simp add: run_defs scenario_defs networkCalls_def transformCount_def sleeps_def)

lemma rateLimitDelay_retry_after_five:
  "rateLimitDelay cfg \<lparr>status = 429, headers = [(''retry-after'', ''5'')], data = d\<rparr>
     = Fin (min 5000 (maxRetryDelay cfg))"
  by (simp add: rateLimitDelay_def retryAfterHeader_def parseInt_def isWhitespace_def isDigit_def
      digitsValue_def)

lemma rateLimitDelay_header_absent:
  "map_of (headers r) ''retry-after'' = None \<Longrightarrow>
   rateLimitDelay cfg r = Fin (min 60000 (maxRetryDelay cfg))"
  by (simp add: rateLimitDelay_def retryAfterHeader_def parseInt_def isWhitespace_def isDigit_def
      digitsValue_def)

text \<open>
  Claim C5 says that a 404 answer is not retried and surfaces as a \<^verbatim>\<open>NOT_FOUND\<close> error.
  There is exactly one network call, but no error: the 404 passes \<^verbatim>\<open>validateStatus\<close>,
  \<^verbatim>\<open>transformError\<close> does not run, and \<^verbatim>\<open>get\<close> returns the body of the response as its
  result and stores it in the cache.
\<close>

theorem C5_not_found_response_is_returned_as_success:
  "fst (get (staticEnv (respondWith 404 [] (JStr ''no such conversation'')))
          ''/conversations/1'' None None freshWorld) = Inr (JStr ''no such conversation'')
   \<and> failure (fst (get (staticEnv (respondWith 404 [] (JStr ''no such conversation'')))
          ''/conversations/1'' None None freshWorld)) = None
   \<and> networkCalls (snd (get (staticEnv (respondWith 404 [] (JStr ''no such conversation'')))
          ''/conversations/1'' None None freshWorld)) = 1
   \<and> transformCount (snd (get (staticEnv (respondWith 404 [] (JStr ''no such conversation'')))
          ''/conversations/1'' None None freshWorld)) = 0
   \<and> cacheStore (snd (get (staticEnv (respondWith 404 [] (JStr ''no such conversation'')))
          ''/conversations/1'' None None freshWorld)) (''GET:/conversations/1'', None)
       = Some (JStr ''no such conversation'')"
  by (simp add: run_defs scenario_defs networkCalls_def transformCount_def)

text \<open>
  Claim C6 says that a 401 answer clears the cached token, so that the next call
  authenticates again. The 401 passes \<^verbatim>\<open>validateStatus\<close>, \<^verbatim>\<open>transformError\<close> does not run,
  and the token obtained from the token endpoint stays cached and valid: a second call
  makes no further token exchange.
\<close>

theorem C6_unauthorized_response_keeps_the_token:
  "fst (put (oauthEnv (respondWith 401 [] (JStr ''unauthorized''))) ''/conversations/1'' JNull
          freshWorld) = Inr (JStr ''unauthorized'')
   \<and> accessToken (snd (put (oauthEnv (respondWith 401 [] (JStr ''unauthorized'')))
          ''/conversations/1'' JNull freshWorld)) = Some ''oauth-token''
   \<and> transformCount (snd (put (oauthEnv (respondWith 401 [] (JStr ''unauthorized'')))
          ''/conversations/1'' JNull freshWorld)) = 0
   \<and> tokenExchanges (snd (put (oauthEnv (respondWith 401 [] (JStr ''unauthorized'')))
          ''/conversations/1'' JNull freshWorld)) = 1
   \<and> tokenValid (oauthEnv (respondWith 401 [] (JStr ''unauthorized'')))
        (snd (put (oauthEnv (respondWith 401 [] (JStr ''unauthorized'')))
          ''/conversations/1'' JNull freshWorld))
   \<and> tokenExchanges
        (snd (put (oauthEnv (respondWith 401 [] (JStr ''unauthorized''))) ''/conversations/1'' JNull
           (snd (put (oauthEnv (respondWith 401 [] (JStr ''unauthorized'')))
              ''/conversations/1'' JNull freshWorld)))) = 1"
  by (simp add: run_defs scenario_defs networkCalls_def transformCount_def tokenExchanges_def)

text \<open>
  Claim C9 says that \<^verbatim>\<open>clearIdleConnections\<close> rebuilds the agents with the options the
  client was constructed with. It rebuilds them with fixed options (50 sockets, 10 free
  sockets): a client constructed with 100 and 20 has agents with 50 and 10 afterwards.
\<close>

theorem C9_clear_idle_uses_fixed_options:
  "maxSockets (options (httpAgent (newClient customPoolOptions (\<lambda>k. None)))) = 100
   \<and> maxFreeSockets (options (httpsAgent (newClient customPoolOptions (\<lambda>k. None)))) = 20
   \<and> maxSockets (options (httpAgent (clearIdleConnections (newClient customPoolOptions (\<lambda>k. None))))) = 50
   \<and> maxFreeSockets (options (httpsAgent (clearIdleConnections (newClient customPoolOptions (\<lambda>k. None)))))
       = 10"
  by (simp add: clearIdleConnections_def customPoolOptions_def scenario_defs emit_def Let_def)

end
